theory Spec2Isabelle
  imports Main "HOL-Library.Char_ord" "HOL-Library.List_Lexorder"
begin

section \<open>The REST API server of Mixxx (src/api/restapiserver.cpp)\<close>

text \<open>
  A shallow embedding of \<^verbatim>\<open>mixxx::RestApiServer\<close>. A \<^verbatim>\<open>QByteArray\<close> is a list of
  bytes (\<^typ>\<open>string\<close>); a \<^verbatim>\<open>QString\<close> is modelled by its UTF-8 bytes, so
  \<^verbatim>\<open>QString::fromUtf8\<close> and \<^verbatim>\<open>toUtf8\<close> are the identity. A \<^verbatim>\<open>QMap\<close> and a
  \<^verbatim>\<open>QJsonObject\<close> are association lists kept sorted by key, which is the order in
  which Qt iterates over them; keys are compared byte by byte, which is Qt's order on the
  ASCII keys that the server uses. The listener (\<^verbatim>\<open>start\<close>, \<^verbatim>\<open>stop\<close>) and the signal
  connections are not part of the model.
\<close>

subsection \<open>Byte arrays and lists of Qt\<close>

text \<open>\<^verbatim>\<open>QByteArray::split(sep)\<close>: the pieces between separators; never an empty list.\<close>

fun QByteArray_split :: "char \<Rightarrow> string \<Rightarrow> string list" where
  "QByteArray_split sep [] = [[]]"
| "QByteArray_split sep (c # cs) =
     (if c = sep then [] # QByteArray_split sep cs
      else (case QByteArray_split sep cs of
              [] \<Rightarrow> [[c]]
            | p # ps \<Rightarrow> (c # p) # ps))"

text \<open>C's \<^verbatim>\<open>isspace\<close> in the C locale: space, and the bytes 9 to 13.\<close>

definition isspace :: "char \<Rightarrow> bool" where
  "isspace c = (c = CHR '' '' \<or> c = CHR 0x09 \<or> c = CHR 0x0A \<or> c = CHR 0x0B
                \<or> c = CHR 0x0C \<or> c = CHR 0x0D)"

definition trimmed :: "string \<Rightarrow> string" where
  "trimmed xs = rev (dropWhile isspace (rev (dropWhile isspace xs)))"

text \<open>\<^verbatim>\<open>indexOf(c)\<close>: the first position of the byte, or -1.\<close>

fun indexOf :: "char \<Rightarrow> string \<Rightarrow> int" where
  "indexOf c [] = - 1"
| "indexOf c (x # xs) =
     (if x = c then 0
      else (let r = indexOf c xs in if r < 0 then - 1 else r + 1))"

definition left :: "int \<Rightarrow> string \<Rightarrow> string" where
  "left n xs = take (nat n) xs"

definition mid :: "int \<Rightarrow> 'a list \<Rightarrow> 'a list" where
  "mid pos xs = drop (nat pos) xs"

fun join :: "char \<Rightarrow> string list \<Rightarrow> string" where
  "join sep [] = []"
| "join sep [x] = x"
| "join sep (x # y # ys) = x @ sep # join sep (y # ys)"

text \<open>\<^verbatim>\<open>QString::toLower\<close>, on the ASCII letters.\<close>

definition toLower_char :: "char \<Rightarrow> char" where
  "toLower_char c =
     (case map_of (zip ''ABCDEFGHIJKLMNOPQRSTUVWXYZ'' ''abcdefghijklmnopqrstuvwxyz'') c of
        Some l \<Rightarrow> l
      | None \<Rightarrow> c)"

definition toLower :: "string \<Rightarrow> string" where
  "toLower s = map toLower_char s"

text \<open>
  Indexing a \<^verbatim>\<open>QList\<close> out of range is an assertion failure; the model makes it
  the value \<open>None\<close>.
\<close>

definition at :: "'a list \<Rightarrow> nat \<Rightarrow> 'a option" where
  "at xs i = (if i < length xs then Some (xs ! i) else None)"

text \<open>\<^verbatim>\<open>m[k] = v\<close> on a \<^verbatim>\<open>QMap\<close> or \<^verbatim>\<open>QJsonObject\<close>: replace, or insert in key order.\<close>

fun QMap_insert :: "string \<Rightarrow> 'v \<Rightarrow> (string \<times> 'v) list \<Rightarrow> (string \<times> 'v) list" where
  "QMap_insert k v [] = [(k, v)]"
| "QMap_insert k v ((k', v') # m) =
     (if k = k' then (k, v) # m
      else if k < k' then (k, v) # (k', v') # m
      else (k', v') # QMap_insert k v m)"

definition QMap_contains :: "(string \<times> 'v) list \<Rightarrow> string \<Rightarrow> bool" where
  "QMap_contains m k = (map_of m k \<noteq> None)"

subsection \<open>Requests and the request parser\<close>

text \<open>
  The struct \<^verbatim>\<open>HttpRequest\<close>. Its fields carry the prefix \<open>req_\<close>: two of their names are
  also fields of \<^verbatim>\<open>HttpResponse\<close>, and one is a keyword of Isabelle.
\<close>

record HttpRequest =
  req_method :: string
  req_path :: string
  req_headers :: "(string \<times> string) list"
  req_body :: string

definition HttpRequest_default :: HttpRequest where
  "HttpRequest_default = \<lparr>req_method = [], req_path = [], req_headers = [], req_body = []\<rparr>"

text \<open>
  The header loop of \<^verbatim>\<open>parseHttpRequest\<close>, from index \<open>i\<close>: the result is the header map
  and \<^verbatim>\<open>headerEndIndex\<close>, which stays 1 when no empty line ends the loop.
\<close>

function parseHeaders ::
  "string list \<Rightarrow> nat \<Rightarrow> (string \<times> string) list \<Rightarrow> ((string \<times> string) list \<times> nat) option"
where
  "parseHeaders lines i hs =
     (if i < length lines then
        (case at lines i of
           None \<Rightarrow> None
         | Some l \<Rightarrow>
             (let line = trimmed l in
              if line = [] then Some (hs, i + 1)
              else
                (let colonIndex = indexOf CHR '':'' line in
                 parseHeaders lines (i + 1)
                   (if colonIndex > 0
                    then QMap_insert (toLower (trimmed (left colonIndex line)))
                           (trimmed (mid (colonIndex + 1) line)) hs
                    else hs))))
      else Some (hs, 1))"
  by pat_completeness auto
termination
  by (relation "measure (\<lambda>(lines, i, hs). length lines - i)") auto

declare parseHeaders.simps [simp del]

definition parseHttpRequest :: "string \<Rightarrow> HttpRequest option" where
  "parseHttpRequest data =
     (let request = HttpRequest_default;
          lines = QByteArray_split CHR 0x0A data in
      if lines = [] then Some request
      else
        (case at lines 0 of
           None \<Rightarrow> None
         | Some l0 \<Rightarrow>
             (let requestLine = QByteArray_split CHR '' '' (trimmed l0) in
              (case (if length requestLine \<ge> 2
                     then (case (at requestLine 0, at requestLine 1) of
                             (Some m, Some p) \<Rightarrow> Some (request\<lparr>req_method := m, req_path := p\<rparr>)
                           | _ \<Rightarrow> None)
                     else Some request) of
                 None \<Rightarrow> None
               | Some request1 \<Rightarrow>
                   (case parseHeaders lines 1 [] of
                      None \<Rightarrow> None
                    | Some (hs, headerEndIndex) \<Rightarrow>
                        Some (request1\<lparr>req_headers := hs,
                                req_body := (if headerEndIndex < length lines
                                             then join CHR 0x0A (mid (int headerEndIndex) lines)
                                             else [])\<rparr>))))))"

subsection \<open>JSON values\<close>

text \<open>
  \<^verbatim>\<open>QJsonValue\<close>. The type \<open>'d\<close> stands for C++'s \<^verbatim>\<open>double\<close>; the server only
  passes such numbers on, and needs the number \<open>0\<close>, the default of \<^verbatim>\<open>toDouble()\<close>.
\<close>

datatype 'd QJsonValue =
    QJsonNull
  | QJsonBool bool
  | QJsonDouble 'd
  | QJsonString string
  | QJsonArray "'d QJsonValue list"
  | QJsonObject "(string \<times> 'd QJsonValue) list"

fun isObject :: "'d QJsonValue \<Rightarrow> bool" where
  "isObject (QJsonObject m) = True"
| "isObject _ = False"

fun object :: "'d QJsonValue \<Rightarrow> (string \<times> 'd QJsonValue) list" where
  "object (QJsonObject m) = m"
| "object _ = []"

text \<open>\<^verbatim>\<open>obj[key]\<close> read: the value, or null for a missing key.\<close>

definition QJsonObject_value :: "(string \<times> 'd QJsonValue) list \<Rightarrow> string \<Rightarrow> 'd QJsonValue" where
  "QJsonObject_value m k = (case map_of m k of None \<Rightarrow> QJsonNull | Some v \<Rightarrow> v)"

fun toDouble :: "('d::zero) QJsonValue \<Rightarrow> 'd" where
  "toDouble (QJsonDouble d) = d"
| "toDouble _ = 0"

subsection \<open>The collaborators: control plane, player registry, Qt\<close>

datatype ConfigKey = ConfigKey string string

text \<open>The accessors of \<^verbatim>\<open>Track\<close> that \<^verbatim>\<open>getTrackMetadata\<close> reads.\<close>

record 'd Track =
  getArtist :: string
  getTitle :: string
  getAlbum :: string
  getAlbumArtist :: string
  getGenre :: string
  getComposer :: string
  getYear :: string
  getComment :: string
  getDuration :: 'd
  getBpm :: 'd
  getKeyText :: string
  getLocation :: string
  getType :: string

text \<open>
  The code outside this file that the server calls is a parameter of the model: \<open>'w\<close> is
  the state of the process (controls and loaded tracks), \<open>'c\<close> a \<^verbatim>\<open>ControlObject*\<close>.
  \<^item> \<open>getControl\<close> is \<^verbatim>\<open>ControlObject::getControl\<close> (\<open>None\<close> is the null pointer),
    \<open>co_get\<close> and \<open>co_set\<close> are \<^verbatim>\<open>ControlObject::get\<close> and \<^verbatim>\<open>set\<close>;
  \<^item> \<open>getTrackInfo\<close> and \<open>getLoadedTracks\<close> are those of \<^verbatim>\<open>PlayerInfo::instance()\<close>, the
    \<^verbatim>\<open>QMap\<close> given as the list of its entries;
  \<^item> \<open>fromJson\<close> and \<open>toJson\<close> are those of \<^verbatim>\<open>QJsonDocument\<close> (a document that is
    neither an object nor an array is \<open>QJsonNull\<close>), \<open>fromPercentEncoding\<close> is that of
    \<^verbatim>\<open>QUrl\<close>.
\<close>

record ('w, 'c, 'd) Env =
  getControl :: "'w \<Rightarrow> ConfigKey \<Rightarrow> 'c option"
  co_get :: "'w \<Rightarrow> 'c \<Rightarrow> 'd"
  co_set :: "'c \<Rightarrow> 'd \<Rightarrow> 'w \<Rightarrow> 'w"
  getTrackInfo :: "'w \<Rightarrow> string \<Rightarrow> 'd Track option"
  getLoadedTracks :: "'w \<Rightarrow> (string \<times> 'd Track option) list"
  fromJson :: "string \<Rightarrow> 'd QJsonValue"
  toJson :: "'d QJsonValue \<Rightarrow> string"
  fromPercentEncoding :: "string \<Rightarrow> string"

subsection \<open>Responses and the response builder\<close>

record HttpResponse =
  statusCode :: int
  statusText :: string
  headers :: "(string \<times> string) list"
  body :: string

definition HttpResponse_default :: HttpResponse where
  "HttpResponse_default = \<lparr>statusCode = 200, statusText = ''OK'', headers = [], body = []\<rparr>"

text \<open>
  A \<^verbatim>\<open>QTcpSocket\<close>: whether it is writable, the byte arrays written to it, one per
  \<^verbatim>\<open>write\<close>, and whether it is still connected. A \<^verbatim>\<open>QTcpSocket*\<close> is an option.
\<close>

record QTcpSocket =
  isWritable :: bool
  written :: "string list"
  connected :: bool

text \<open>\<^verbatim>\<open>QByteArray::number\<close> and \<^verbatim>\<open>QString::number\<close> of an integer, in base 10.\<close>

fun digits :: "nat \<Rightarrow> string" where
  "digits n =
     (if n < 10 then [''0123456789'' ! n]
      else digits (n div 10) @ [''0123456789'' ! (n mod 10)])"

declare digits.simps [simp del]

definition number :: "int \<Rightarrow> string" where
  "number i = (if i < 0 then CHR ''-'' # digits (nat (- i)) else digits (nat i))"

text \<open>
  Not of the source: the number that a string of decimal digits denotes, to say what the
  value of \<^verbatim>\<open>Content-Length\<close> is.
\<close>

definition decimal :: "string \<Rightarrow> nat" where
  "decimal s = foldl (\<lambda>a c. 10 * a + (of_char c - 48)) 0 s"

definition CRLF :: string where
  "CRLF = [CHR 0x0D, CHR 0x0A]"

text \<open>The local \<^verbatim>\<open>headers\<close> of \<^verbatim>\<open>sendHttpResponse\<close> after its five assignments.\<close>

definition sendHttpResponse_headers :: "HttpResponse \<Rightarrow> (string \<times> string) list" where
  "sendHttpResponse_headers response =
     (let hs = headers response;
          hs = QMap_insert ''Content-Length'' (number (int (length (body response)))) hs;
          hs = (if \<not> QMap_contains hs ''Content-Type''
                then QMap_insert ''Content-Type'' ''application/json'' hs else hs);
          hs = QMap_insert ''Access-Control-Allow-Origin'' ''*'' hs;
          hs = QMap_insert ''Access-Control-Allow-Methods'' ''GET, POST, OPTIONS'' hs;
          hs = QMap_insert ''Access-Control-Allow-Headers'' ''Content-Type'' hs
      in hs)"

text \<open>The local \<^verbatim>\<open>responseData\<close> of \<^verbatim>\<open>sendHttpResponse\<close>: the bytes it writes.\<close>

definition sendHttpResponse_responseData :: "HttpResponse \<Rightarrow> string" where
  "sendHttpResponse_responseData response =
     ''HTTP/1.1 '' @ number (statusCode response) @ '' '' @ statusText response @ CRLF
     @ concat (map (\<lambda>(k, v). k @ '': '' @ v @ CRLF) (sendHttpResponse_headers response))
     @ CRLF
     @ body response"

definition sendHttpResponse :: "QTcpSocket option \<Rightarrow> HttpResponse \<Rightarrow> QTcpSocket option" where
  "sendHttpResponse socket response =
     (case socket of
        None \<Rightarrow> None
      | Some s \<Rightarrow>
          if \<not> isWritable s then Some s
          else Some (s\<lparr>written := written s @ [sendHttpResponse_responseData response],
                       connected := False\<rparr>))"

subsection \<open>Building the JSON of the endpoints\<close>

definition getTrackMetadata :: "'d Track option \<Rightarrow> (string \<times> 'd QJsonValue) list" where
  "getTrackMetadata track =
     (case track of
        None \<Rightarrow> []
      | Some t \<Rightarrow>
          (let json = [];
               json = QMap_insert ''artist'' (QJsonString (getArtist t)) json;
               json = QMap_insert ''title'' (QJsonString (getTitle t)) json;
               json = QMap_insert ''album'' (QJsonString (getAlbum t)) json;
               json = QMap_insert ''album_artist'' (QJsonString (getAlbumArtist t)) json;
               json = QMap_insert ''genre'' (QJsonString (getGenre t)) json;
               json = QMap_insert ''composer'' (QJsonString (getComposer t)) json;
               json = QMap_insert ''year'' (QJsonString (getYear t)) json;
               json = QMap_insert ''comment'' (QJsonString (getComment t)) json;
               json = QMap_insert ''duration'' (QJsonDouble (getDuration t)) json;
               json = QMap_insert ''bpm'' (QJsonDouble (getBpm t)) json;
               json = QMap_insert ''key'' (QJsonString (getKeyText t)) json;
               json = QMap_insert ''location'' (QJsonString (getLocation t)) json;
               json = QMap_insert ''file_type'' (QJsonString (getType t)) json
           in json))"

text \<open>
  The lambda \<^verbatim>\<open>getControlValue\<close> of both status builders. The source's variable
  \<^verbatim>\<open>group\<close> is \<open>grp\<close> throughout, \<open>group\<close> being a constant of HOL.
\<close>

definition getControlValue ::
  "('w, 'c, 'd) Env \<Rightarrow> 'w \<Rightarrow> string \<Rightarrow> string \<Rightarrow> 'd QJsonValue" where
  "getControlValue E w grp item =
     (case getControl E w (ConfigKey grp item) of
        Some pControl \<Rightarrow> QJsonDouble (co_get E w pControl)
      | None \<Rightarrow> QJsonNull)"

definition getPlayerStatus ::
  "('w, 'c, 'd) Env \<Rightarrow> 'w \<Rightarrow> string \<Rightarrow> (string \<times> 'd QJsonValue) list" where
  "getPlayerStatus E w grp =
     (let json = [];
          pTrack = getTrackInfo E w grp;
          json = (case pTrack of
                    Some t \<Rightarrow> QMap_insert ''track'' (QJsonObject (getTrackMetadata (Some t))) json
                  | None \<Rightarrow> QMap_insert ''track'' QJsonNull json);
          json = QMap_insert ''play'' (getControlValue E w grp ''play'') json;
          json = QMap_insert ''play_indicator'' (getControlValue E w grp ''play_indicator'') json;
          json = QMap_insert ''playposition'' (getControlValue E w grp ''playposition'') json;
          json = QMap_insert ''duration'' (getControlValue E w grp ''duration'') json;
          json = QMap_insert ''volume'' (getControlValue E w grp ''volume'') json;
          json = QMap_insert ''pregain'' (getControlValue E w grp ''pregain'') json;
          json = QMap_insert ''bpm'' (getControlValue E w grp ''bpm'') json;
          json = QMap_insert ''rate'' (getControlValue E w grp ''rate'') json;
          json = QMap_insert ''tempo_ratio'' (getControlValue E w grp ''tempo_ratio'') json;
          json = QMap_insert ''keylock'' (getControlValue E w grp ''keylock'') json;
          json = QMap_insert ''repeat'' (getControlValue E w grp ''repeat'') json;
          json = QMap_insert ''loop_enabled'' (getControlValue E w grp ''loop_enabled'') json;
          json = QMap_insert ''track_loaded'' (getControlValue E w grp ''track_loaded'') json
      in json)"

definition getAllPlayersStatus ::
  "('w, 'c, 'd) Env \<Rightarrow> 'w \<Rightarrow> (string \<times> 'd QJsonValue) list" where
  "getAllPlayersStatus E w =
     (let json = [];
          loadedTracks = getLoadedTracks E w;
          players = map (\<lambda>(grp, pTrack).
                      QJsonObject (QMap_insert ''group'' (QJsonString grp)
                                     (getPlayerStatus E w grp)))
                      loadedTracks;
          json = QMap_insert ''players'' (QJsonArray players) json;
          master = [];
          master = QMap_insert ''volume'' (getControlValue E w ''[Master]'' ''volume'') master;
          master = QMap_insert ''balance'' (getControlValue E w ''[Master]'' ''balance'') master;
          master = QMap_insert ''headVolume'' (getControlValue E w ''[Master]'' ''headVolume'') master;
          master = QMap_insert ''headMix'' (getControlValue E w ''[Master]'' ''headMix'') master;
          json = QMap_insert ''master'' (QJsonObject master) json
      in json)"

subsection \<open>The endpoint handlers\<close>

definition handleGetStatus ::
  "('w, 'c, 'd) Env \<Rightarrow> 'w \<Rightarrow> QTcpSocket option \<Rightarrow> HttpRequest \<Rightarrow> QTcpSocket option" where
  "handleGetStatus E w socket request =
     (let json = getAllPlayersStatus E w in
      sendHttpResponse socket (HttpResponse_default\<lparr>body := toJson E (QJsonObject json)\<rparr>))"

definition handleGetPlayer ::
  "('w, 'c, 'd) Env \<Rightarrow> 'w \<Rightarrow> QTcpSocket option \<Rightarrow> string \<Rightarrow> QTcpSocket option" where
  "handleGetPlayer E w socket grp =
     (let json = getPlayerStatus E w grp in
      if json = [] then
        (let errorJson = [];
             errorJson = QMap_insert ''error'' (QJsonString ''Player not found'') errorJson;
             errorJson = QMap_insert ''group'' (QJsonString grp) errorJson
         in sendHttpResponse socket
              (HttpResponse_default\<lparr>statusCode := 404, statusText := ''Not Found'',
                 body := toJson E (QJsonObject errorJson)\<rparr>))
      else sendHttpResponse socket (HttpResponse_default\<lparr>body := toJson E (QJsonObject json)\<rparr>))"

definition handleGetControl ::
  "('w, 'c, 'd) Env \<Rightarrow> 'w \<Rightarrow> QTcpSocket option \<Rightarrow> string \<Rightarrow> string \<Rightarrow> QTcpSocket option" where
  "handleGetControl E w socket grp item =
     (case getControl E w (ConfigKey grp item) of
        None \<Rightarrow>
          (let json = [];
               json = QMap_insert ''error'' (QJsonString ''Control not found'') json;
               json = QMap_insert ''group'' (QJsonString grp) json;
               json = QMap_insert ''item'' (QJsonString item) json
           in sendHttpResponse socket
                (HttpResponse_default\<lparr>statusCode := 404, statusText := ''Not Found'',
                   body := toJson E (QJsonObject json)\<rparr>))
      | Some pControl \<Rightarrow>
          (let json = [];
               json = QMap_insert ''group'' (QJsonString grp) json;
               json = QMap_insert ''item'' (QJsonString item) json;
               json = QMap_insert ''value'' (QJsonDouble (co_get E w pControl)) json
           in sendHttpResponse socket
                (HttpResponse_default\<lparr>body := toJson E (QJsonObject json)\<rparr>)))"

text \<open>The message of the first 400 answer; \<open>CHR 0x22\<close> is the double quote.\<close>

definition invalidJsonMessage :: string where
  "invalidJsonMessage =
     ''Invalid JSON body. Expected {'' @ [CHR 0x22] @ ''value'' @ [CHR 0x22] @ '': <number>}''"

definition handleSetControl ::
  "('w, 'c, 'd::zero) Env \<Rightarrow> 'w \<Rightarrow> QTcpSocket option \<Rightarrow> string \<Rightarrow> string \<Rightarrow> string
     \<Rightarrow> 'w \<times> QTcpSocket option" where
  "handleSetControl E w socket grp item body' =
     (let doc = fromJson E body' in
      if \<not> isObject doc then
        (let json = QMap_insert ''error'' (QJsonString invalidJsonMessage) []
         in (w, sendHttpResponse socket
                  (HttpResponse_default\<lparr>statusCode := 400, statusText := ''Bad Request'',
                     body := toJson E (QJsonObject json)\<rparr>)))
      else
        (let requestJson = object doc in
         if \<not> QMap_contains requestJson ''value'' then
           (let json = QMap_insert ''error''
                         (QJsonString ''Missing 'value' field in request body'') []
            in (w, sendHttpResponse socket
                     (HttpResponse_default\<lparr>statusCode := 400, statusText := ''Bad Request'',
                        body := toJson E (QJsonObject json)\<rparr>)))
         else
           (let value = toDouble (QJsonObject_value requestJson ''value'') in
            case getControl E w (ConfigKey grp item) of
              None \<Rightarrow>
                (let json = [];
                     json = QMap_insert ''error'' (QJsonString ''Control not found'') json;
                     json = QMap_insert ''group'' (QJsonString grp) json;
                     json = QMap_insert ''item'' (QJsonString item) json
                 in (w, sendHttpResponse socket
                          (HttpResponse_default\<lparr>statusCode := 404, statusText := ''Not Found'',
                             body := toJson E (QJsonObject json)\<rparr>)))
            | Some pControl \<Rightarrow>
                (let w' = co_set E pControl value w;
                     json = [];
                     json = QMap_insert ''success'' (QJsonBool True) json;
                     json = QMap_insert ''group'' (QJsonString grp) json;
                     json = QMap_insert ''item'' (QJsonString item) json;
                     json = QMap_insert ''value'' (QJsonDouble (co_get E w' pControl)) json
                 in (w', sendHttpResponse socket
                           (HttpResponse_default\<lparr>body := toJson E (QJsonObject json)\<rparr>))))))"

subsection \<open>The router\<close>

text \<open>\<^verbatim>\<open>QString::split(sep, Qt::SkipEmptyParts)\<close>.\<close>

definition QString_split_SkipEmptyParts :: "char \<Rightarrow> string \<Rightarrow> string list" where
  "QString_split_SkipEmptyParts sep s = filter (\<lambda>p. p \<noteq> []) (QByteArray_split sep s)"

definition startsWith :: "string \<Rightarrow> char \<Rightarrow> bool" where
  "startsWith s c = (case s of [] \<Rightarrow> False | x # _ \<Rightarrow> x = c)"

text \<open>
  The local \<^verbatim>\<open>pathParts\<close> of \<^verbatim>\<open>handleRequest\<close>: the segments of the path, the last one
  cut at its first question mark.
\<close>

definition handleRequest_pathParts :: "string \<Rightarrow> string list" where
  "handleRequest_pathParts p =
     (let pathParts = QString_split_SkipEmptyParts CHR ''/'' p in
      if pathParts \<noteq> [] then
        (let lastPart = last pathParts;
             queryIndex = indexOf CHR ''?'' lastPart in
         if queryIndex \<ge> 0 then butlast pathParts @ [left queryIndex lastPart]
         else pathParts)
      else pathParts)"

definition handleRequest ::
  "('w, 'c, 'd::zero) Env \<Rightarrow> 'w \<Rightarrow> QTcpSocket option \<Rightarrow> HttpRequest
     \<Rightarrow> 'w \<times> QTcpSocket option" where
  "handleRequest E w socket request =
     (if req_method request = ''OPTIONS'' then
        (w, sendHttpResponse socket
              (HttpResponse_default\<lparr>statusCode := 204, statusText := ''No Content''\<rparr>))
      else
        (let pathParts = handleRequest_pathParts (req_path request) in
         if pathParts = [] \<or> pathParts ! 0 \<noteq> ''api'' then
           (let json = [];
                json = QMap_insert ''error'' (QJsonString ''Not Found'') json;
                json = QMap_insert ''message'' (QJsonString ''API endpoints are under /api'') json
            in (w, sendHttpResponse socket
                     (HttpResponse_default\<lparr>statusCode := 404, statusText := ''Not Found'',
                        body := toJson E (QJsonObject json)\<rparr>)))
         else if length pathParts < 2 then
           (let json = QMap_insert ''error'' (QJsonString ''Bad Request'') []
            in (w, sendHttpResponse socket
                     (HttpResponse_default\<lparr>statusCode := 400, statusText := ''Bad Request'',
                        body := toJson E (QJsonObject json)\<rparr>)))
         else
           (let endpoint = pathParts ! 1 in
            if endpoint = ''status'' \<and> req_method request = ''GET'' then
              (w, handleGetStatus E w socket request)
            else if endpoint = ''player'' \<and> length pathParts \<ge> 3 \<and> req_method request = ''GET'' then
              (let grp = fromPercentEncoding E (pathParts ! 2);
                   grp = (if \<not> startsWith grp CHR ''['' then ''['' @ grp @ '']'' else grp)
               in (w, handleGetPlayer E w socket grp))
            else if endpoint = ''control'' \<and> length pathParts \<ge> 4 then
              (let grp = fromPercentEncoding E (pathParts ! 2);
                   item = fromPercentEncoding E (pathParts ! 3);
                   grp = (if \<not> startsWith grp CHR ''['' then ''['' @ grp @ '']'' else grp)
               in if req_method request = ''GET'' then
                    (w, handleGetControl E w socket grp item)
                  else if req_method request = ''POST'' then
                    handleSetControl E w socket grp item (req_body request)
                  else
                    (let json = QMap_insert ''error'' (QJsonString ''Method Not Allowed'') []
                     in (w, sendHttpResponse socket
                              (HttpResponse_default\<lparr>statusCode := 405,
                                 statusText := ''Method Not Allowed'',
                                 body := toJson E (QJsonObject json)\<rparr>))))
            else
              (let json = QMap_insert ''error'' (QJsonString ''Endpoint not found'') []
               in (w, sendHttpResponse socket
                        (HttpResponse_default\<lparr>statusCode := 404, statusText := ''Not Found'',
                           body := toJson E (QJsonObject json)\<rparr>))))))"

text \<open>
  \<^verbatim>\<open>handleClientData\<close>, on the bytes that \<^verbatim>\<open>readAll\<close> returns. \<open>None\<close> is a failed
  assertion in the parser.
\<close>

definition handleClientData ::
  "('w, 'c, 'd::zero) Env \<Rightarrow> 'w \<Rightarrow> QTcpSocket option \<Rightarrow> string
     \<Rightarrow> ('w \<times> QTcpSocket option) option" where
  "handleClientData E w socket data =
     (case socket of
        None \<Rightarrow> Some (w, socket)
      | Some s \<Rightarrow>
          if data = [] then Some (w, socket)
          else (case parseHttpRequest data of
                  None \<Rightarrow> None
                | Some request \<Rightarrow> Some (handleRequest E w socket request)))"

subsection \<open>Group normalization, as the specification words it\<close>

text \<open>
  Stated from the specification, not from the code: if the decoded group does not start
  with an opening bracket, it is wrapped in brackets. The theorems compare the router,
  which has this inline in two branches, with it.
\<close>

definition normalizeGroup :: "string \<Rightarrow> string" where
  "normalizeGroup g = (if startsWith g CHR ''['' then g else ''['' @ g @ '']'')"

subsection \<open>A small environment to run the server in\<close>

text \<open>
  Controls are integers kept in an association list, and a write is clamped to the range
  from 0 to 100. One track is loaded, in \<^verbatim>\<open>[Channel1]\<close>. The JSON writer is compact,
  the JSON reader knows the three bodies of the examples, and the paths of the examples
  have no percent escapes.
\<close>

fun demo_set :: "ConfigKey \<Rightarrow> int \<Rightarrow> (ConfigKey \<times> int) list \<Rightarrow> (ConfigKey \<times> int) list" where
  "demo_set k v [] = []"
| "demo_set k v ((k', v') # w) =
     (if k' = k then (k', max 0 (min 100 v)) # w else (k', v') # demo_set k v w)"

definition dquote :: string where
  "dquote = [CHR 0x22]"

fun demo_toJson :: "int QJsonValue \<Rightarrow> string"
  and demo_members :: "(string \<times> int QJsonValue) list \<Rightarrow> string"
  and demo_elements :: "int QJsonValue list \<Rightarrow> string"
where
  "demo_toJson QJsonNull = ''null''"
| "demo_toJson (QJsonBool b) = (if b then ''true'' else ''false'')"
| "demo_toJson (QJsonDouble d) = number d"
| "demo_toJson (QJsonString s) = dquote @ s @ dquote"
| "demo_toJson (QJsonArray vs) = ''['' @ demo_elements vs @ '']''"
| "demo_toJson (QJsonObject m) = ''{'' @ demo_members m @ ''}''"
| "demo_members [] = []"
| "demo_members (kv # m) =
     dquote @ fst kv @ dquote @ '':'' @ demo_toJson (snd kv)
     @ (if m = [] then [] else '','' @ demo_members m)"
| "demo_elements [] = []"
| "demo_elements (v # vs) =
     demo_toJson v @ (if vs = [] then [] else '','' @ demo_elements vs)"

definition body_number :: string where
  "body_number = ''{'' @ dquote @ ''value'' @ dquote @ '': 250}''"

definition body_string :: string where
  "body_string = ''{'' @ dquote @ ''value'' @ dquote @ '': '' @ dquote @ ''loud'' @ dquote @ ''}''"

definition demo_fromJson :: "string \<Rightarrow> int QJsonValue" where
  "demo_fromJson b =
     (if b = body_number then QJsonObject [(''value'', QJsonDouble 250)]
      else if b = body_string then QJsonObject [(''value'', QJsonString ''loud'')]
      else if b = ''{}'' then QJsonObject []
      else QJsonNull)"

definition demoTrack :: "int Track" where
  "demoTrack =
     \<lparr>getArtist = ''Daft Punk'', getTitle = ''Around the World'', getAlbum = ''Homework'',
      getAlbumArtist = ''Daft Punk'', getGenre = ''House'', getComposer = [],
      getYear = ''1997'', getComment = [], getDuration = 429, getBpm = 121,
      getKeyText = ''Em'', getLocation = ''/music/atw.mp3'', getType = ''mp3''\<rparr>"

definition demoEnv :: "((ConfigKey \<times> int) list, ConfigKey, int) Env" where
  "demoEnv =
     \<lparr>getControl = (\<lambda>w k. if map_of w k = None then None else Some k),
      co_get = (\<lambda>w k. case map_of w k of None \<Rightarrow> 0 | Some v \<Rightarrow> v),
      co_set = demo_set,
      getTrackInfo = (\<lambda>w g. if g = ''[Channel1]'' then Some demoTrack else None),
      getLoadedTracks = (\<lambda>w. [(''[Channel1]'', Some demoTrack)]),
      fromJson = demo_fromJson,
      toJson = demo_toJson,
      fromPercentEncoding = (\<lambda>s. s)\<rparr>"

definition demoWorld :: "(ConfigKey \<times> int) list" where
  "demoWorld = [(ConfigKey ''[Channel1]'' ''volume'', 40), (ConfigKey ''[Master]'' ''volume'', 70)]"

definition demoSocket :: "QTcpSocket option" where
  "demoSocket = Some \<lparr>isWritable = True, written = [], connected = True\<rparr>"

text \<open>A request as it arrives, with a header and a body of two lines.\<close>

definition demoData :: string where
  "demoData = ''POST /api/control/Channel1/volume HTTP/1.1'' @ CRLF @ ''Content-Type: application/json'' @ CRLF
     @ CRLF @ ''{}'' @ [CHR 0x0A] @ ''z''"

definition demoRequest :: "string \<Rightarrow> string \<Rightarrow> string \<Rightarrow> HttpRequest" where
  "demoRequest m p b = \<lparr>req_method = m, req_path = p, req_headers = [], req_body = b\<rparr>"

section \<open>Properties\<close>

subsection \<open>The helpers and the handlers, one branch at a time\<close>

lemma QByteArray_split_nonempty: "QByteArray_split sep xs \<noteq> []"
  by (induction xs) (auto split: list.splits)

lemma QMap_insert_nonempty: "QMap_insert k v m \<noteq> []"
  by (cases m) (auto split: if_splits)

lemma map_of_QMap_insert:
  "map_of (QMap_insert k v m) k' = (if k' = k then Some v else map_of m k')"
  by (induction m) auto

lemma getPlayerStatus_nonempty: "getPlayerStatus E w grp \<noteq> []"
  by (simp add: getPlayerStatus_def Let_def QMap_insert_nonempty)

lemma handleGetControl_eq:
  "handleGetControl E w socket grp item =
     sendHttpResponse socket
       (case getControl E w (ConfigKey grp item) of
          None \<Rightarrow>
            \<lparr>statusCode = 404, statusText = ''Not Found'', headers = [],
               body = toJson E (QJsonObject
                 [(''error'', QJsonString ''Control not found''),
                  (''group'', QJsonString grp), (''item'', QJsonString item)])\<rparr>
        | Some c \<Rightarrow>
            \<lparr>statusCode = 200, statusText = ''OK'', headers = [],
               body = toJson E (QJsonObject
                 [(''group'', QJsonString grp), (''item'', QJsonString item),
                  (''value'', QJsonDouble (co_get E w c))])\<rparr>)"
  by (simp add: handleGetControl_def HttpResponse_default_def Let_def split: option.split)

lemma handleSetControl_not_object:
  assumes "\<not> isObject (fromJson E b)"
  shows "handleSetControl E w socket grp item b =
     (w, sendHttpResponse socket
           \<lparr>statusCode = 400, statusText = ''Bad Request'', headers = [],
              body = toJson E (QJsonObject [(''error'', QJsonString invalidJsonMessage)])\<rparr>)"
  using assms by (simp add: handleSetControl_def HttpResponse_default_def Let_def)

lemma handleSetControl_no_value:
  assumes "fromJson E b = QJsonObject obj" and "map_of obj ''value'' = None"
  shows "handleSetControl E w socket grp item b =
     (w, sendHttpResponse socket
           \<lparr>statusCode = 400, statusText = ''Bad Request'', headers = [],
              body = toJson E (QJsonObject
                [(''error'', QJsonString ''Missing 'value' field in request body'')])\<rparr>)"
  using assms by (simp add: handleSetControl_def HttpResponse_default_def Let_def QMap_contains_def)

lemma handleSetControl_absent:
  assumes "fromJson E b = QJsonObject obj" and "map_of obj ''value'' = Some v"
    and "getControl E w (ConfigKey grp item) = None"
  shows "handleSetControl E w socket grp item b =
     (w, sendHttpResponse socket
           \<lparr>statusCode = 404, statusText = ''Not Found'', headers = [],
               body = toJson E (QJsonObject
                 [(''error'', QJsonString ''Control not found''),
                  (''group'', QJsonString grp), (''item'', QJsonString item)])\<rparr>)"
  using assms by (simp add: handleSetControl_def HttpResponse_default_def Let_def QMap_contains_def)

lemma handleSetControl_write:
  assumes "fromJson E b = QJsonObject obj" and "map_of obj ''value'' = Some v"
    and "getControl E w (ConfigKey grp item) = Some c"
  shows "handleSetControl E w socket grp item b =
     (co_set E c (toDouble v) w,
      sendHttpResponse socket
        \<lparr>statusCode = 200, statusText = ''OK'', headers = [],
           body = toJson E (QJsonObject
             [(''group'', QJsonString grp), (''item'', QJsonString item),
              (''success'', QJsonBool True),
              (''value'', QJsonDouble (co_get E (co_set E c (toDouble v) w) c))])\<rparr>)"
  using assms
  by (simp add: handleSetControl_def HttpResponse_default_def Let_def QMap_contains_def
      QJsonObject_value_def)

lemma route_control:
  assumes "req_method request \<noteq> ''OPTIONS''"
    and "handleRequest_pathParts (req_path request) = ''api'' # ''control'' # g # i # rest"
  shows "handleRequest E w socket request =
     (if req_method request = ''GET'' then
        (w, handleGetControl E w socket (normalizeGroup (fromPercentEncoding E g)) (fromPercentEncoding E i))
      else if req_method request = ''POST'' then
        handleSetControl E w socket (normalizeGroup (fromPercentEncoding E g)) (fromPercentEncoding E i) (req_body request)
      else (w, sendHttpResponse socket
                    \<lparr>statusCode = 405, statusText = ''Method Not Allowed'', headers = [],
                       body = toJson E (QJsonObject [(''error'', QJsonString ''Method Not Allowed'')])\<rparr>))"
  using assms by (simp add: handleRequest_def Let_def normalizeGroup_def HttpResponse_default_def)

lemma route_player:
  assumes "req_method request = ''GET''"
    and "handleRequest_pathParts (req_path request) = ''api'' # ''player'' # g # rest"
  shows "handleRequest E w socket request =
        (w, handleGetPlayer E w socket (normalizeGroup (fromPercentEncoding E g)))"
  using assms by (simp add: handleRequest_def Let_def normalizeGroup_def HttpResponse_default_def)

lemma route_status:
  assumes "req_method request = ''GET''"
    and "handleRequest_pathParts (req_path request) = ''api'' # ''status'' # rest"
  shows "handleRequest E w socket request = (w, handleGetStatus E w socket request)"
  using assms by (simp add: handleRequest_def Let_def)

lemmas path_eval =
  handleRequest_pathParts_def QString_split_SkipEmptyParts_def Let_def left_def

lemmas demo_eval =
  demoRequest_def demoEnv_def demoWorld_def normalizeGroup_def startsWith_def

lemma getAllPlayersStatus_eq:
  "getAllPlayersStatus E w =
     [(''master'', QJsonObject
         [(''balance'', getControlValue E w ''[Master]'' ''balance''),
          (''headMix'', getControlValue E w ''[Master]'' ''headMix''),
          (''headVolume'', getControlValue E w ''[Master]'' ''headVolume''),
          (''volume'', getControlValue E w ''[Master]'' ''volume'')]),
      (''players'', QJsonArray
         (map (\<lambda>(grp, pTrack).
                 QJsonObject (QMap_insert ''group'' (QJsonString grp) (getPlayerStatus E w grp)))
            (getLoadedTracks E w)))]"
  by (simp add: getAllPlayersStatus_def Let_def)


lemma at_Some: "i < length xs \<Longrightarrow> at xs i = Some (xs ! i)"
  by (simp add: at_def)

lemma parseHeaders_Some: "\<exists>hs e. parseHeaders lines i hs0 = Some (hs, e)"
proof (induction lines i hs0 rule: parseHeaders.induct)
  case (1 lines i hs)
  show ?case
  proof (cases "i < length lines")
    case False
    then show ?thesis
      by (simp add: parseHeaders.simps [of lines i hs])
  next
    case True
    show ?thesis
    proof (cases "trimmed (lines ! i) = []")
      case True
      with \<open>i < length lines\<close> show ?thesis
        by (simp add: parseHeaders.simps [of lines i hs] at_Some)
    next
      case False
      with \<open>i < length lines\<close> "1.IH" [OF \<open>i < length lines\<close> at_Some [OF \<open>i < length lines\<close>] refl False refl]
      show ?thesis
        by (simp add: parseHeaders.simps [of lines i hs] at_Some Let_def)
    qed
  qed
qed

lemma parseHeaders_terminator:
  assumes "i \<le> k" and "k < length lines" and "trimmed (lines ! k) = []"
    and "\<forall>j. i \<le> j \<and> j < k \<longrightarrow> trimmed (lines ! j) \<noteq> []"
  shows "\<exists>hs. parseHeaders lines i hs0 = Some (hs, Suc k)"
  using assms
proof (induction "k - i" arbitrary: i hs0)
  case 0
  then have "i = k" by simp
  with 0 show ?case
    by (simp add: parseHeaders.simps [of lines k hs0] at_Some)
next
  case (Suc n)
  then have lt: "i < k" and len: "i < length lines" and ne: "trimmed (lines ! i) \<noteq> []"
    by auto
  from Suc have "\<exists>hs. parseHeaders lines (Suc i) hs1 = Some (hs, Suc k)" for hs1
    by (intro Suc.hyps(1)) auto
  with len ne show ?case
    by (simp add: parseHeaders.simps [of lines i hs0] at_Some Let_def)
qed

lemma join_Cons: "ys \<noteq> [] \<Longrightarrow> join sep (x # ys) = x @ sep # join sep ys"
  by (cases ys) simp_all

lemma join_split: "join sep (QByteArray_split sep xs) = xs"
proof (induction xs)
  case Nil
  show ?case by simp
next
  case (Cons c cs)
  obtain p ps where s: "QByteArray_split sep cs = p # ps"
    using QByteArray_split_nonempty [of sep cs] by (cases "QByteArray_split sep cs") auto
  show ?case
  proof (cases "c = sep")
    case True
    with Cons s show ?thesis
      by simp
  next
    case False
    with Cons s show ?thesis
      by (cases ps) auto
  qed
qed

lemma join_append:
  "xs \<noteq> [] \<Longrightarrow> ys \<noteq> [] \<Longrightarrow> join sep (xs @ ys) = join sep xs @ sep # join sep ys"
proof (induction xs)
  case Nil
  then show ?case by simp
next
  case (Cons x xs)
  then show ?case
    by (cases "xs = []") (simp_all add: join_Cons)
qed

lemma join_take_drop:
  assumes "0 < n" and "n < length xs"
  shows "join sep xs = join sep (take n xs) @ sep # join sep (drop n xs)"
proof -
  from assms have "take n xs \<noteq> []" and "drop n xs \<noteq> []"
    by auto
  then have "join sep (take n xs @ drop n xs) = join sep (take n xs) @ sep # join sep (drop n xs)"
    by (rule join_append)
  then show ?thesis
    by simp
qed

lemma handleGetPlayer_eq:
  "handleGetPlayer E w socket grp =
     sendHttpResponse socket
       \<lparr>statusCode = 200, statusText = ''OK'', headers = [],
          body = toJson E (QJsonObject (getPlayerStatus E w grp))\<rparr>"
  by (simp add: handleGetPlayer_def Let_def getPlayerStatus_nonempty HttpResponse_default_def)

lemma handleSetControl_sends_once:
  "\<exists>w' response. headers response = [] \<and>
     (\<forall>socket. handleSetControl E w socket grp item b = (w', sendHttpResponse socket response))"
proof (cases "isObject (fromJson E b)")
  case False
  then show ?thesis
    using handleSetControl_not_object [of E b w _ grp item] by (intro exI conjI allI) auto
next
  case True
  then obtain obj where obj: "fromJson E b = QJsonObject obj"
    by (cases "fromJson E b") auto
  show ?thesis
  proof (cases "map_of obj ''value''")
    case None
    with obj show ?thesis
      using handleSetControl_no_value [of E b obj w _ grp item] by (intro exI conjI allI) auto
  next
    case (Some v)
    show ?thesis
    proof (cases "getControl E w (ConfigKey grp item)")
      case None
      with obj Some show ?thesis
        using handleSetControl_absent [of E b obj v w grp item] by (intro exI conjI allI) auto
    next
      case (Some c)
      with obj \<open>map_of obj ''value'' = Some v\<close> show ?thesis
        using handleSetControl_write [of E b obj v w grp item c] by (intro exI conjI allI) auto
    qed
  qed
qed


lemma sends_once_direct:
  assumes "\<And>socket. f socket = (w', sendHttpResponse socket response)" and "headers response = []"
  shows "\<exists>w' response. headers response = [] \<and>
           (\<forall>socket. f socket = (w', sendHttpResponse socket response))"
  using assms by blast

lemma handleRequest_sends_once:
  "\<exists>w' response. headers response = [] \<and>
     (\<forall>socket. handleRequest E w socket request = (w', sendHttpResponse socket response))"
proof -
  define pathParts where "pathParts = handleRequest_pathParts (req_path request)"
  note unfold = handleRequest_def Let_def pathParts_def [symmetric] HttpResponse_default_def
  consider (options) "req_method request = ''OPTIONS''"
    | (no_api) "req_method request \<noteq> ''OPTIONS''" "pathParts = [] \<or> pathParts ! 0 \<noteq> ''api''"
    | (short) "req_method request \<noteq> ''OPTIONS''" "\<not> (pathParts = [] \<or> pathParts ! 0 \<noteq> ''api'')"
        "length pathParts < 2"
    | (status) "req_method request \<noteq> ''OPTIONS''" "\<not> (pathParts = [] \<or> pathParts ! 0 \<noteq> ''api'')"
        "\<not> length pathParts < 2" "pathParts ! 1 = ''status'' \<and> req_method request = ''GET''"
    | (player) "req_method request \<noteq> ''OPTIONS''" "\<not> (pathParts = [] \<or> pathParts ! 0 \<noteq> ''api'')"
        "\<not> length pathParts < 2" "\<not> (pathParts ! 1 = ''status'' \<and> req_method request = ''GET'')"
        "pathParts ! 1 = ''player'' \<and> length pathParts \<ge> 3 \<and> req_method request = ''GET''"
    | (control) "req_method request \<noteq> ''OPTIONS''" "\<not> (pathParts = [] \<or> pathParts ! 0 \<noteq> ''api'')"
        "\<not> length pathParts < 2" "\<not> (pathParts ! 1 = ''status'' \<and> req_method request = ''GET'')"
        "\<not> (pathParts ! 1 = ''player'' \<and> length pathParts \<ge> 3 \<and> req_method request = ''GET'')"
        "pathParts ! 1 = ''control'' \<and> length pathParts \<ge> 4"
    | (other) "req_method request \<noteq> ''OPTIONS''" "\<not> (pathParts = [] \<or> pathParts ! 0 \<noteq> ''api'')"
        "\<not> length pathParts < 2" "\<not> (pathParts ! 1 = ''status'' \<and> req_method request = ''GET'')"
        "\<not> (pathParts ! 1 = ''player'' \<and> length pathParts \<ge> 3 \<and> req_method request = ''GET'')"
        "\<not> (pathParts ! 1 = ''control'' \<and> length pathParts \<ge> 4)"
    by blast
  then show ?thesis
  proof cases
    case options
    show ?thesis
      by (rule sends_once_direct) (simp add: unfold options)+
  next
    case no_api
    show ?thesis
      by (rule sends_once_direct) (simp add: unfold no_api)+
  next
    case short
    show ?thesis
      by (rule sends_once_direct) (use short in \<open>(simp add: unfold)+\<close>)
  next
    case status
    show ?thesis
      by (rule sends_once_direct) (use status in \<open>(simp add: unfold handleGetStatus_def)+\<close>)
  next
    case player
    show ?thesis
      by (rule sends_once_direct) (use player in \<open>(simp add: unfold handleGetPlayer_eq)+\<close>)
  next
    case control
    define grp where "grp =
      (if \<not> startsWith (fromPercentEncoding E (pathParts ! 2)) CHR ''[''
       then ''['' @ fromPercentEncoding E (pathParts ! 2) @ '']''
       else fromPercentEncoding E (pathParts ! 2))"
    show ?thesis
    proof (cases "req_method request = ''POST''")
      case True
      have "handleRequest E w socket request =
              handleSetControl E w socket grp (fromPercentEncoding E (pathParts ! 3))
                (req_body request)" for socket
        using control True by (simp add: unfold grp_def)
      with handleSetControl_sends_once
        [of E w grp "fromPercentEncoding E (pathParts ! 3)" "req_body request"]
      show ?thesis
        by simp
    next
      case False
      show ?thesis
      proof (cases "req_method request = ''GET''")
        case True
        have "handleRequest E w socket request =
                (w, handleGetControl E w socket grp (fromPercentEncoding E (pathParts ! 3)))"
          for socket
          using control True by (simp add: unfold grp_def)
        then show ?thesis
          unfolding handleGetControl_eq
          by (rule sends_once_direct) (simp split: option.split)
      next
        case no_get: False
        show ?thesis
          by (rule sends_once_direct) (use control False no_get in \<open>(simp add: unfold)+\<close>)
      qed
    qed
  next
    case other
    have "handleRequest E w socket request =
            (w, sendHttpResponse socket
                  (HttpResponse_default\<lparr>statusCode := 404, statusText := ''Not Found'',
                     body := toJson E (QJsonObject
                       (QMap_insert ''error'' (QJsonString ''Endpoint not found'') []))\<rparr>))"
      for socket
      by (simp only: handleRequest_def Let_def pathParts_def [symmetric] other if_False)
    then show ?thesis
      by (rule sends_once_direct) (simp add: HttpResponse_default_def)
  qed
qed

lemma decimal_snoc: "decimal (s @ [c]) = 10 * decimal s + (of_char c - 48)"
  by (simp add: decimal_def)

lemma digit_value: "d < 10 \<Longrightarrow> of_char (''0123456789'' ! d) - 48 = (d::nat)"
proof -
  assume "d < 10"
  then consider "d = 0" | "d = 1" | "d = 2" | "d = 3" | "d = 4" | "d = 5" | "d = 6" | "d = 7"
    | "d = 8" | "d = 9"
    by atomize_elim presburger
  then show ?thesis
    by cases simp_all
qed

lemma decimal_digits: "decimal (digits n) = n"
proof (induction n rule: digits.induct)
  case (1 n)
  show ?case
  proof (cases "n < 10")
    case True
    then show ?thesis
      using digit_value [of n] by (simp add: digits.simps [of n] decimal_def)
  next
    case False
    with 1 have "decimal (digits (n div 10)) = n div 10"
      by simp
    with False show ?thesis
      using digit_value [of "n mod 10"] by (simp add: digits.simps [of n] decimal_snoc)
  qed
qed

lemma decimal_number: "decimal (number (int n)) = n"
  by (simp add: number_def decimal_digits)

lemma sendHttpResponse_headers_lookup:
  "map_of (sendHttpResponse_headers r) ''Content-Length'' = Some (number (int (length (body r))))"
  "map_of (sendHttpResponse_headers r) ''Access-Control-Allow-Origin'' = Some ''*''"
  "map_of (sendHttpResponse_headers r) ''Access-Control-Allow-Methods'' = Some ''GET, POST, OPTIONS''"
  "map_of (sendHttpResponse_headers r) ''Access-Control-Allow-Headers'' = Some ''Content-Type''"
  "map_of (sendHttpResponse_headers r) ''Content-Type'' =
     Some (case map_of (headers r) ''Content-Type'' of None \<Rightarrow> ''application/json'' | Some t \<Rightarrow> t)"
  by (simp_all add: sendHttpResponse_headers_def Let_def map_of_QMap_insert QMap_contains_def
      split: option.split)

lemma sendHttpResponse_headers_plain:
  "headers r = [] \<Longrightarrow>
   sendHttpResponse_headers r =
     [(''Access-Control-Allow-Headers'', ''Content-Type''),
      (''Access-Control-Allow-Methods'', ''GET, POST, OPTIONS''),
      (''Access-Control-Allow-Origin'', ''*''),
      (''Content-Length'', number (int (length (body r)))),
      (''Content-Type'', ''application/json'')]"
  by (simp add: sendHttpResponse_headers_def Let_def QMap_contains_def)

subsection \<open>C1: a player that does not exist\<close>

text \<open>
  Claim C1 says that a group with no track and none of the thirteen controls is answered
  404 with \<^verbatim>\<open>Player not found\<close>. The code answers 200: \<^verbatim>\<open>getPlayerStatus\<close> assigns
  all fourteen keys, null where there is nothing, so the object is never empty and the
  404 branch of \<^verbatim>\<open>handleGetPlayer\<close> is never taken. Here the server runs on a state
  with no control, for a group with no track.
\<close>

theorem get_player_unknown_group:
  "getTrackInfo demoEnv [] ''[nonexistent-group]'' = None
   \<and> (\<forall>item. getControl demoEnv [] (ConfigKey ''[nonexistent-group]'' item) = None)
   \<and> handleRequest demoEnv [] demoSocket (demoRequest ''GET'' ''/api/player/nonexistent-group'' [])
     = ([], sendHttpResponse demoSocket
              \<lparr>statusCode = 200, statusText = ''OK'', headers = [],
                 body = toJson demoEnv (QJsonObject
                   [(''bpm'', QJsonNull), (''duration'', QJsonNull), (''keylock'', QJsonNull),
                    (''loop_enabled'', QJsonNull), (''play'', QJsonNull),
                    (''play_indicator'', QJsonNull), (''playposition'', QJsonNull),
                    (''pregain'', QJsonNull), (''rate'', QJsonNull), (''repeat'', QJsonNull),
                    (''tempo_ratio'', QJsonNull), (''track'', QJsonNull),
                    (''track_loaded'', QJsonNull), (''volume'', QJsonNull)])\<rparr>)"
proof -
  let ?r = "demoRequest ''GET'' ''/api/player/nonexistent-group'' []"
  have m: "req_method ?r = ''GET''"
    by (simp add: demoRequest_def)
  have p: "handleRequest_pathParts (req_path ?r) = ''api'' # ''player'' # ''nonexistent-group'' # []"
    by (simp add: path_eval demoRequest_def)
  have n: "normalizeGroup (fromPercentEncoding demoEnv ''nonexistent-group'') = ''[nonexistent-group]''"
    by (simp add: demo_eval)
  have c: "getControlValue demoEnv [] g item = QJsonNull" for g item
    by (simp add: getControlValue_def demoEnv_def)
  have t: "getTrackInfo demoEnv [] ''[nonexistent-group]'' = None"
    by (simp add: demoEnv_def)
  have s: "getPlayerStatus demoEnv [] ''[nonexistent-group]'' =
                   [(''bpm'', QJsonNull), (''duration'', QJsonNull), (''keylock'', QJsonNull),
                    (''loop_enabled'', QJsonNull), (''play'', QJsonNull),
                    (''play_indicator'', QJsonNull), (''playposition'', QJsonNull),
                    (''pregain'', QJsonNull), (''rate'', QJsonNull), (''repeat'', QJsonNull),
                    (''tempo_ratio'', QJsonNull), (''track'', QJsonNull),
                    (''track_loaded'', QJsonNull), (''volume'', QJsonNull)]"
    by (simp add: getPlayerStatus_def Let_def c t)
  have "\<forall>item. getControl demoEnv [] (ConfigKey ''[nonexistent-group]'' item) = None"
    by (simp add: demoEnv_def)
  with t show ?thesis
    by (simp add: route_player [OF m p] n handleGetPlayer_eq s)
qed

subsection \<open>C2: one response, with the fixed headers\<close>

text \<open>
  Claim C2. Handling a request hands exactly one response to the response builder, the
  same whatever the socket is, and no handler sets a header, so its headers are the five
  below. The builder writes a response once to a writable socket (and nothing to a
  socket that is null or not writable): the status line, one line per header, an empty
  line, the body. For every response the headers written give \<^verbatim>\<open>Content-Length\<close> as the
  decimal number of bytes of the body, the three CORS headers, and as \<^verbatim>\<open>Content-Type\<close>
  the handler's own if it set one and \<^verbatim>\<open>application/json\<close> otherwise.
\<close>

theorem one_response_fixed_headers:
  "(\<exists>w' response.
      (\<forall>socket. handleRequest E w socket request = (w', sendHttpResponse socket response))
    \<and> sendHttpResponse_headers response =
        [(''Access-Control-Allow-Headers'', ''Content-Type''),
         (''Access-Control-Allow-Methods'', ''GET, POST, OPTIONS''),
         (''Access-Control-Allow-Origin'', ''*''),
         (''Content-Length'', number (int (length (body response)))),
         (''Content-Type'', ''application/json'')])
 \<and> (isWritable s \<longrightarrow>
      sendHttpResponse (Some s) r =
        Some (s\<lparr>written := written s @ [sendHttpResponse_responseData r], connected := False\<rparr>))
 \<and> (\<not> isWritable s \<longrightarrow> sendHttpResponse (Some s) r = Some s)
 \<and> sendHttpResponse None r = None
 \<and> sendHttpResponse_responseData r =
      ''HTTP/1.1 '' @ number (statusCode r) @ '' '' @ statusText r @ CRLF
      @ concat (map (\<lambda>(k, v). k @ '': '' @ v @ CRLF) (sendHttpResponse_headers r))
      @ CRLF @ body r
 \<and> map_of (sendHttpResponse_headers r) ''Content-Length'' = Some (number (int (length (body r))))
 \<and> decimal (number (int (length (body r)))) = length (body r)
 \<and> map_of (sendHttpResponse_headers r) ''Access-Control-Allow-Origin'' = Some ''*''
 \<and> map_of (sendHttpResponse_headers r) ''Access-Control-Allow-Methods'' = Some ''GET, POST, OPTIONS''
 \<and> map_of (sendHttpResponse_headers r) ''Access-Control-Allow-Headers'' = Some ''Content-Type''
 \<and> map_of (sendHttpResponse_headers r) ''Content-Type'' =
      Some (case map_of (headers r) ''Content-Type'' of
              None \<Rightarrow> ''application/json''
            | Some t \<Rightarrow> t)"
proof -
  from handleRequest_sends_once [of E w request] obtain w' response
    where h: "headers response = []"
      and o: "\<forall>socket. handleRequest E w socket request = (w', sendHttpResponse socket response)"
    by blast
  from h have "sendHttpResponse_headers response =
        [(''Access-Control-Allow-Headers'', ''Content-Type''),
         (''Access-Control-Allow-Methods'', ''GET, POST, OPTIONS''),
         (''Access-Control-Allow-Origin'', ''*''),
         (''Content-Length'', number (int (length (body response)))),
         (''Content-Type'', ''application/json'')]"
    by (rule sendHttpResponse_headers_plain)
  with o have first: "\<exists>w' response.
      (\<forall>socket. handleRequest E w socket request = (w', sendHttpResponse socket response))
    \<and> sendHttpResponse_headers response =
        [(''Access-Control-Allow-Headers'', ''Content-Type''),
         (''Access-Control-Allow-Methods'', ''GET, POST, OPTIONS''),
         (''Access-Control-Allow-Origin'', ''*''),
         (''Content-Length'', number (int (length (body response)))),
         (''Content-Type'', ''application/json'')]"
    by blast
  have builder: "isWritable s \<longrightarrow>
      sendHttpResponse (Some s) r =
        Some (s\<lparr>written := written s @ [sendHttpResponse_responseData r], connected := False\<rparr>)"
    "\<not> isWritable s \<longrightarrow> sendHttpResponse (Some s) r = Some s"
    "sendHttpResponse None r = None"
    by (simp_all add: sendHttpResponse_def)
  show ?thesis
    using first builder sendHttpResponse_headers_lookup [of r] decimal_number [of "length (body r)"]
    by (simp only: sendHttpResponse_responseData_def simp_thms)
qed


theorem one_response_fixed_headers_witness:
  "isWritable \<lparr>isWritable = True, written = [], connected = True\<rparr>
   \<and> handleRequest demoEnv demoWorld demoSocket (demoRequest ''GET'' ''/api/nothing'' [])
     = (demoWorld,
        Some \<lparr>isWritable = True,
              written =
                [''HTTP/1.1 404 Not Found'' @ CRLF
                 @ ''Access-Control-Allow-Headers: Content-Type'' @ CRLF
                 @ ''Access-Control-Allow-Methods: GET, POST, OPTIONS'' @ CRLF
                 @ ''Access-Control-Allow-Origin: *'' @ CRLF
                 @ ''Content-Length: 30'' @ CRLF
                 @ ''Content-Type: application/json'' @ CRLF
                 @ CRLF
                 @ toJson demoEnv (QJsonObject [(''error'', QJsonString ''Endpoint not found'')])],
              connected = False\<rparr>)
   \<and> length (toJson demoEnv (QJsonObject [(''error'', QJsonString ''Endpoint not found'')])) = 30"
proof -
  let ?s = "\<lparr>isWritable = True, written = [], connected = True\<rparr>"
  let ?b = "toJson demoEnv (QJsonObject [(''error'', QJsonString ''Endpoint not found'') :: string \<times> int QJsonValue])"
  let ?r = "\<lparr>statusCode = 404, statusText = ''Not Found'', headers = [], body = ?b\<rparr>"
  let ?q = "demoRequest ''GET'' ''/api/nothing'' []"
  have w: "isWritable ?s"
    by simp
  have p: "handleRequest_pathParts ''/api/nothing'' = [''api'', ''nothing'']"
    by (simp add: path_eval)
  have e: "handleRequest demoEnv demoWorld demoSocket ?q = (demoWorld, sendHttpResponse (Some ?s) ?r)"
    by (simp add: handleRequest_def Let_def demoRequest_def p HttpResponse_default_def
        demoSocket_def)
  have l: "length ?b = 30"
    by (simp add: demoEnv_def dquote_def)
  note t = one_response_fixed_headers [of demoEnv demoWorld ?q ?s ?r]
  from t w have sent: "sendHttpResponse (Some ?s) ?r =
      Some (?s\<lparr>written := written ?s @ [sendHttpResponse_responseData ?r], connected := False\<rparr>)"
    by blast
  from t have data: "sendHttpResponse_responseData ?r =
      ''HTTP/1.1 '' @ number (statusCode ?r) @ '' '' @ statusText ?r @ CRLF
      @ concat (map (\<lambda>(k, v). k @ '': '' @ v @ CRLF) (sendHttpResponse_headers ?r))
      @ CRLF @ body ?r"
    by blast
  have hs: "sendHttpResponse_headers ?r =
     [(''Access-Control-Allow-Headers'', ''Content-Type''),
      (''Access-Control-Allow-Methods'', ''GET, POST, OPTIONS''),
      (''Access-Control-Allow-Origin'', ''*''),
      (''Content-Length'', ''30''),
      (''Content-Type'', ''application/json'')]"
    by (simp add: sendHttpResponse_headers_plain l number_def digits.simps)
  have n: "number 404 = ''404''"
    by (simp add: number_def digits.simps)
  show ?thesis
    by (simp only: e sent data hs n l) (simp add: CRLF_def n)
qed

subsection \<open>C3: the request parser\<close>

text \<open>
  Claim C3. The parser returns a request for every input: no indexing in it fails. The
  lines are the pieces of the input between line feeds. When the request line has fewer
  than two tokens between single spaces, method and path stay empty (otherwise they are
  the first two tokens). When line \<open>k\<close> is the first line after the request line that is
  empty once trimmed, the body is the lines after it joined with line feeds, which is
  all of the input after the line feed that ends line \<open>k\<close>.
\<close>

theorem parseHttpRequest_total:
  "let lines = QByteArray_split CHR 0x0A data;
       requestLine = QByteArray_split CHR '' '' (trimmed (hd lines))
   in join CHR 0x0A lines = data
    \<and> (\<exists>request. parseHttpRequest data = Some request
         \<and> (length requestLine < 2 \<longrightarrow> req_method request = [] \<and> req_path request = [])
         \<and> (2 \<le> length requestLine \<longrightarrow>
               req_method request = requestLine ! 0 \<and> req_path request = requestLine ! 1)
         \<and> (\<forall>k. 1 \<le> k \<and> k < length lines \<and> trimmed (lines ! k) = []
                  \<and> (\<forall>j. 1 \<le> j \<and> j < k \<longrightarrow> trimmed (lines ! j) \<noteq> [])
               \<longrightarrow> req_body request = join CHR 0x0A (drop (Suc k) lines)
                   \<and> data = join CHR 0x0A (take (Suc k) lines)
                            @ (if Suc k < length lines then CHR 0x0A # req_body request else [])))"
proof -
  define lines where "lines = QByteArray_split CHR 0x0A data"
  define requestLine where "requestLine = QByteArray_split CHR '' '' (trimmed (hd lines))"
  have ne: "lines \<noteq> []"
    by (simp add: lines_def QByteArray_split_nonempty)
  then have l0: "at lines 0 = Some (hd lines)"
    by (cases lines) (simp_all add: at_def)
  have j: "join CHR 0x0A lines = data"
    by (simp add: lines_def join_split)
  obtain hs e where ph: "parseHeaders lines 1 [] = Some (hs, e)"
    using parseHeaders_Some by blast
  define request1 where "request1 =
    (if 2 \<le> length requestLine
     then HttpRequest_default\<lparr>req_method := requestLine ! 0, req_path := requestLine ! 1\<rparr>
     else HttpRequest_default)"
  define request where "request = request1\<lparr>req_headers := hs,
       req_body := (if e < length lines then join CHR 0x0A (drop e lines) else [])\<rparr>"
  have p: "parseHttpRequest data = Some request"
    using ne l0 ph
    by (simp add: parseHttpRequest_def Let_def lines_def [symmetric] requestLine_def [symmetric]
        request_def request1_def at_def mid_def)
  have m1: "length requestLine < 2 \<longrightarrow> req_method request = [] \<and> req_path request = []"
    by (simp add: request_def request1_def HttpRequest_default_def)
  have m2: "2 \<le> length requestLine \<longrightarrow>
               req_method request = requestLine ! 0 \<and> req_path request = requestLine ! 1"
    by (simp add: request_def request1_def HttpRequest_default_def)
  have b: "req_body request = join CHR 0x0A (drop (Suc k) lines)
           \<and> data = join CHR 0x0A (take (Suc k) lines)
                    @ (if Suc k < length lines then CHR 0x0A # req_body request else [])"
    if k: "1 \<le> k \<and> k < length lines \<and> trimmed (lines ! k) = []
           \<and> (\<forall>j. 1 \<le> j \<and> j < k \<longrightarrow> trimmed (lines ! j) \<noteq> [])" for k
  proof -
    from k obtain hs' where "parseHeaders lines 1 [] = Some (hs', Suc k)"
      using parseHeaders_terminator [of 1 k lines "[]"] by auto
    with ph have e: "e = Suc k"
      by simp
    have body: "req_body request = join CHR 0x0A (drop (Suc k) lines)"
      by (simp add: request_def e)
    show ?thesis
    proof (cases "Suc k < length lines")
      case True
      with j body join_take_drop [of "Suc k" lines "CHR 0x0A"] show ?thesis
        by simp
    next
      case False
      with j body show ?thesis
        by simp
    qed
  qed
  from j p m1 m2 b show ?thesis
    unfolding Let_def lines_def [symmetric] requestLine_def [symmetric]
    by blast
qed

theorem parseHttpRequest_total_witness:
  "(\<exists>request. parseHttpRequest demoData = Some request
       \<and> req_method request = ''POST'' \<and> req_path request = ''/api/control/Channel1/volume''
       \<and> req_body request = ''{}'' @ [CHR 0x0A] @ ''z'')
   \<and> (\<exists>request. parseHttpRequest ''GET'' = Some request
       \<and> req_method request = [] \<and> req_path request = [])"
proof -
  let ?lines = "[''POST /api/control/Channel1/volume HTTP/1.1'' @ [CHR 0x0D],
                 ''Content-Type: application/json'' @ [CHR 0x0D], [CHR 0x0D], ''{}'', ''z'']"
  let ?requestLine = "QByteArray_split CHR '' '' (trimmed (hd ?lines))"
  have l: "QByteArray_split CHR 0x0A demoData = ?lines"
    by (simp add: demoData_def CRLF_def)
  have t: "?requestLine = [''POST'', ''/api/control/Channel1/volume'', ''HTTP/1.1'']"
    by (simp add: trimmed_def isspace_def)
  from parseHttpRequest_total [of demoData] obtain r1 where
    a: "parseHttpRequest demoData = Some r1"
    and b: "2 \<le> length ?requestLine \<longrightarrow>
              req_method r1 = ?requestLine ! 0 \<and> req_path r1 = ?requestLine ! 1"
    and c: "\<forall>k. 1 \<le> k \<and> k < length ?lines \<and> trimmed (?lines ! k) = []
                  \<and> (\<forall>j. 1 \<le> j \<and> j < k \<longrightarrow> trimmed (?lines ! j) \<noteq> [])
               \<longrightarrow> req_body r1 = join CHR 0x0A (drop (Suc k) ?lines)
                   \<and> demoData = join CHR 0x0A (take (Suc k) ?lines)
                            @ (if Suc k < length ?lines then CHR 0x0A # req_body r1 else [])"
    unfolding Let_def l by blast
  have "trimmed (?lines ! j) \<noteq> []" if "1 \<le> j \<and> j < 2" for j
  proof -
    from that have "j = 1" by arith
    then show ?thesis by (simp add: trimmed_def isspace_def)
  qed
  then have h: "1 \<le> (2::nat) \<and> 2 < length ?lines \<and> trimmed (?lines ! 2) = []
                  \<and> (\<forall>j. 1 \<le> j \<and> j < 2 \<longrightarrow> trimmed (?lines ! j) \<noteq> [])"
    by (simp add: trimmed_def isspace_def)
  from c [rule_format, OF h] have "req_body r1 = ''{}'' @ [CHR 0x0A] @ ''z''"
    by simp
  moreover from b t have "req_method r1 = ''POST'' \<and> req_path r1 = ''/api/control/Channel1/volume''"
    by simp
  moreover from parseHttpRequest_total [of "''GET''"]
  have "\<exists>request. parseHttpRequest ''GET'' = Some request
       \<and> req_method request = [] \<and> req_path request = []"
    by (auto simp: Let_def trimmed_def isspace_def)
  ultimately show ?thesis
    using a by blast
qed

subsection \<open>C4: writing a control\<close>

text \<open>
  Claim C4. A POST to the control endpoint whose body is a JSON object with a member
  \<^verbatim>\<open>value\<close>, for a control that exists, writes the value and answers 200 with
  \<^verbatim>\<open>success\<close> true, the group, the item, and the value read from the control after the
  write, in the state the write has left.
\<close>

theorem set_control_read_back:
  assumes "req_method request = ''POST''"
    and "handleRequest_pathParts (req_path request) = ''api'' # ''control'' # g # i # rest"
    and "fromJson E (req_body request) = QJsonObject obj"
    and "map_of obj ''value'' = Some v"
    and "getControl E w
           (ConfigKey (normalizeGroup (fromPercentEncoding E g)) (fromPercentEncoding E i)) = Some c"
  shows "handleRequest E w socket request =
     (co_set E c (toDouble v) w,
      sendHttpResponse socket
        \<lparr>statusCode = 200, statusText = ''OK'', headers = [],
           body = toJson E (QJsonObject
             [(''group'', QJsonString (normalizeGroup (fromPercentEncoding E g))),
              (''item'', QJsonString (fromPercentEncoding E i)),
              (''success'', QJsonBool True),
              (''value'', QJsonDouble (co_get E (co_set E c (toDouble v) w) c))])\<rparr>)"
  using assms by (simp add: route_control handleSetControl_write)

theorem set_control_read_back_witness:
  "fromJson demoEnv body_number = QJsonObject [(''value'', QJsonDouble 250)]
   \<and> handleRequest demoEnv demoWorld demoSocket
         (demoRequest ''POST'' ''/api/control/Channel1/volume'' body_number)
       = ([(ConfigKey ''[Channel1]'' ''volume'', 100), (ConfigKey ''[Master]'' ''volume'', 70)],
          sendHttpResponse demoSocket
            \<lparr>statusCode = 200, statusText = ''OK'', headers = [],
               body = toJson demoEnv (QJsonObject
                 [(''group'', QJsonString ''[Channel1]''), (''item'', QJsonString ''volume''),
                  (''success'', QJsonBool True), (''value'', QJsonDouble 100)])\<rparr>)"
proof -
  let ?r = "demoRequest ''POST'' ''/api/control/Channel1/volume'' body_number"
  have m: "req_method ?r = ''POST''"
    by (simp add: demoRequest_def)
  have p: "handleRequest_pathParts (req_path ?r) = ''api'' # ''control'' # ''Channel1'' # ''volume'' # []"
    by (simp add: path_eval demoRequest_def)
  have j: "fromJson demoEnv (req_body ?r) = QJsonObject [(''value'', QJsonDouble 250)]"
    by (simp add: demoRequest_def demoEnv_def demo_fromJson_def)
  have v: "map_of [(''value'', QJsonDouble (250::int))] ''value'' = Some (QJsonDouble 250)"
    by simp
  have c: "getControl demoEnv demoWorld
             (ConfigKey (normalizeGroup (fromPercentEncoding demoEnv ''Channel1''))
                (fromPercentEncoding demoEnv ''volume''))
           = Some (ConfigKey ''[Channel1]'' ''volume'')"
    by (simp add: demo_eval)
  show ?thesis
    using j set_control_read_back [OF m p j v c, of demoSocket]
    by (simp add: demo_eval)
qed

subsection \<open>C5: a body that is no object, or has no value\<close>

text \<open>
  Claim C5. A POST to the control endpoint is answered 400 with the invalid-JSON message
  when its body is not a JSON object, and 400 with the missing-value message when the
  object has no member \<^verbatim>\<open>value\<close>; in both cases the state of the controls is the one
  before the request.
\<close>

theorem set_control_bad_body:
  assumes "req_method request = ''POST''"
    and "handleRequest_pathParts (req_path request) = ''api'' # ''control'' # g # i # rest"
  shows "(\<not> isObject (fromJson E (req_body request)) \<longrightarrow>
            handleRequest E w socket request =
              (w, sendHttpResponse socket
                    \<lparr>statusCode = 400, statusText = ''Bad Request'', headers = [],
                       body = toJson E (QJsonObject
                         [(''error'', QJsonString
                             (''Invalid JSON body. Expected {'' @ [CHR 0x22] @ ''value''
                              @ [CHR 0x22] @ '': <number>}''))])\<rparr>))
       \<and> (\<forall>obj. fromJson E (req_body request) = QJsonObject obj \<and> map_of obj ''value'' = None \<longrightarrow>
            handleRequest E w socket request =
              (w, sendHttpResponse socket
                    \<lparr>statusCode = 400, statusText = ''Bad Request'', headers = [],
                       body = toJson E (QJsonObject
                         [(''error'', QJsonString ''Missing 'value' field in request body'')])\<rparr>))"
  using assms
  by (simp add: route_control handleSetControl_not_object handleSetControl_no_value
      invalidJsonMessage_def)

theorem set_control_bad_body_witness:
  "\<not> isObject (fromJson demoEnv ''not-json'')
   \<and> handleRequest demoEnv demoWorld demoSocket
         (demoRequest ''POST'' ''/api/control/[Channel1]/volume'' ''not-json'')
       = (demoWorld, sendHttpResponse demoSocket
            \<lparr>statusCode = 400, statusText = ''Bad Request'', headers = [],
               body = toJson demoEnv (QJsonObject
                 [(''error'', QJsonString
                     (''Invalid JSON body. Expected {'' @ [CHR 0x22] @ ''value''
                      @ [CHR 0x22] @ '': <number>}''))])\<rparr>)
   \<and> fromJson demoEnv ''{}'' = QJsonObject []
   \<and> handleRequest demoEnv demoWorld demoSocket
         (demoRequest ''POST'' ''/api/control/[Channel1]/volume'' ''{}'')
       = (demoWorld, sendHttpResponse demoSocket
            \<lparr>statusCode = 400, statusText = ''Bad Request'', headers = [],
               body = toJson demoEnv (QJsonObject
                 [(''error'', QJsonString ''Missing 'value' field in request body'')])\<rparr>)"
proof -
  let ?r1 = "demoRequest ''POST'' ''/api/control/[Channel1]/volume'' ''not-json''"
  let ?r2 = "demoRequest ''POST'' ''/api/control/[Channel1]/volume'' ''{}''"
  have m: "req_method (demoRequest ''POST'' p b) = ''POST''" for p b
    by (simp add: demoRequest_def)
  have p: "handleRequest_pathParts (req_path (demoRequest ''POST'' ''/api/control/[Channel1]/volume'' b))
           = ''api'' # ''control'' # ''[Channel1]'' # ''volume'' # []" for b
    by (simp add: path_eval demoRequest_def)
  have j1: "\<not> isObject (fromJson demoEnv (req_body ?r1))"
    by (simp add: demoRequest_def demoEnv_def demo_fromJson_def body_number_def body_string_def)
  have j2: "fromJson demoEnv (req_body ?r2) = QJsonObject [] \<and> map_of ([] :: (string \<times> int QJsonValue) list) ''value'' = None"
    by (simp add: demoRequest_def demoEnv_def demo_fromJson_def body_number_def body_string_def)
  show ?thesis
    using j1 j2 set_control_bad_body [OF m p, of demoEnv "''not-json''" demoWorld demoSocket]
      set_control_bad_body [OF m p, of demoEnv "''{}''" demoWorld demoSocket]
    by (simp add: demoRequest_def)
qed

subsection \<open>C6: reading a control\<close>

text \<open>
  Claim C6. A GET whose path segments are \<^verbatim>\<open>api\<close>, \<^verbatim>\<open>control\<close>, a group and an item is
  answered 200 with the object of the normalized group, the item and the control's
  current value when the control exists, and 404 with an error, the normalized group and
  the item when it does not.
\<close>

theorem get_control_endpoint:
  assumes "req_method request = ''GET''"
    and "handleRequest_pathParts (req_path request) = ''api'' # ''control'' # g # i # rest"
  shows "handleRequest E w socket request =
     (w, sendHttpResponse socket
       (case getControl E w
               (ConfigKey (normalizeGroup (fromPercentEncoding E g)) (fromPercentEncoding E i)) of
          None \<Rightarrow>
            \<lparr>statusCode = 404, statusText = ''Not Found'', headers = [],
               body = toJson E (QJsonObject
                 [(''error'', QJsonString ''Control not found''),
                  (''group'', QJsonString (normalizeGroup (fromPercentEncoding E g))),
                  (''item'', QJsonString (fromPercentEncoding E i))])\<rparr>
        | Some c \<Rightarrow>
            \<lparr>statusCode = 200, statusText = ''OK'', headers = [],
               body = toJson E (QJsonObject
                 [(''group'', QJsonString (normalizeGroup (fromPercentEncoding E g))),
                  (''item'', QJsonString (fromPercentEncoding E i)),
                  (''value'', QJsonDouble (co_get E w c))])\<rparr>))"
  using assms by (simp add: route_control handleGetControl_eq)


theorem get_control_endpoint_witness:
  "handleRequest_pathParts ''/api/control/Channel1/volume'' = [''api'', ''control'', ''Channel1'', ''volume'']
   \<and> handleRequest demoEnv demoWorld demoSocket (demoRequest ''GET'' ''/api/control/Channel1/volume'' [])
       = (demoWorld, sendHttpResponse demoSocket
            \<lparr>statusCode = 200, statusText = ''OK'', headers = [],
               body = toJson demoEnv (QJsonObject
                 [(''group'', QJsonString ''[Channel1]''), (''item'', QJsonString ''volume''),
                  (''value'', QJsonDouble 40)])\<rparr>)
   \<and> handleRequest demoEnv demoWorld demoSocket (demoRequest ''GET'' ''/api/control/Channel1/pitch'' [])
       = (demoWorld, sendHttpResponse demoSocket
            \<lparr>statusCode = 404, statusText = ''Not Found'', headers = [],
               body = toJson demoEnv (QJsonObject
                 [(''error'', QJsonString ''Control not found''),
                  (''group'', QJsonString ''[Channel1]''), (''item'', QJsonString ''pitch'')])\<rparr>)"
proof -
  have m: "req_method (demoRequest ''GET'' p []) = ''GET''" for p
    by (simp add: demoRequest_def)
  have p1: "handleRequest_pathParts (req_path (demoRequest ''GET'' ''/api/control/Channel1/volume'' []))
            = ''api'' # ''control'' # ''Channel1'' # ''volume'' # []"
    by (simp add: path_eval demoRequest_def)
  have p2: "handleRequest_pathParts (req_path (demoRequest ''GET'' ''/api/control/Channel1/pitch'' []))
            = ''api'' # ''control'' # ''Channel1'' # ''pitch'' # []"
    by (simp add: path_eval demoRequest_def)
  show ?thesis
    using p1 get_control_endpoint [OF m p1, of demoEnv demoWorld demoSocket]
      get_control_endpoint [OF m p2, of demoEnv demoWorld demoSocket]
    by (simp add: demo_eval)
qed

subsection \<open>C7: the CORS preflight\<close>

text \<open>
  Claim C7. A request whose method is \<^verbatim>\<open>OPTIONS\<close> is answered 204 No Content with an
  empty body, whatever its path is: the path is not even split, and the state of the
  controls is not touched.
\<close>

theorem options_preflight:
  assumes "req_method request = ''OPTIONS''"
  shows "handleRequest E w socket request =
           (w, sendHttpResponse socket
                 \<lparr>statusCode = 204, statusText = ''No Content'', headers = [], body = []\<rparr>)"
  using assms by (simp add: handleRequest_def HttpResponse_default_def)

theorem options_preflight_witness:
  "req_method (demoRequest ''OPTIONS'' ''/no/such/endpoint'' ''ignored'') = ''OPTIONS'' \<and>
   handleRequest demoEnv demoWorld demoSocket (demoRequest ''OPTIONS'' ''/no/such/endpoint'' ''ignored'') =
     (demoWorld,
      Some \<lparr>isWritable = True,
            written = [''HTTP/1.1 204 No Content'' @ CRLF
                       @ ''Access-Control-Allow-Headers: Content-Type'' @ CRLF
                       @ ''Access-Control-Allow-Methods: GET, POST, OPTIONS'' @ CRLF
                       @ ''Access-Control-Allow-Origin: *'' @ CRLF
                       @ ''Content-Length: 0'' @ CRLF
                       @ ''Content-Type: application/json'' @ CRLF
                       @ CRLF],
            connected = False\<rparr>)"
proof -
  have h: "req_method (demoRequest ''OPTIONS'' ''/no/such/endpoint'' ''ignored'') = ''OPTIONS''"
    by (simp add: demoRequest_def)
  show ?thesis
    using h options_preflight [OF h, of demoEnv demoWorld demoSocket]
    by (simp add: demoSocket_def sendHttpResponse_def sendHttpResponse_responseData_def
        sendHttpResponse_headers_def QMap_contains_def number_def digits.simps CRLF_def)
qed

subsection \<open>C8: the status of all players\<close>

text \<open>
  Claim C8. A GET whose first two path segments are \<^verbatim>\<open>api\<close> and \<^verbatim>\<open>status\<close> is answered
  200 with an object of two members: \<^verbatim>\<open>players\<close>, an array with one element per entry of
  the loaded-tracks map of the player registry, and \<^verbatim>\<open>master\<close>, an object with exactly
  the keys \<^verbatim>\<open>balance\<close>, \<^verbatim>\<open>headMix\<close>, \<^verbatim>\<open>headVolume\<close> and \<^verbatim>\<open>volume\<close>, each null when the
  control of that name in the group \<^verbatim>\<open>[Master]\<close> does not exist and its value otherwise.
\<close>

theorem status_endpoint:
  assumes "req_method request = ''GET''"
    and "handleRequest_pathParts (req_path request) = ''api'' # ''status'' # rest"
  shows "\<exists>players.
      handleRequest E w socket request =
        (w, sendHttpResponse socket
              \<lparr>statusCode = 200, statusText = ''OK'', headers = [],
                 body = toJson E (QJsonObject
                   [(''master'', QJsonObject
                       [(''balance'', getControlValue E w ''[Master]'' ''balance''),
                        (''headMix'', getControlValue E w ''[Master]'' ''headMix''),
                        (''headVolume'', getControlValue E w ''[Master]'' ''headVolume''),
                        (''volume'', getControlValue E w ''[Master]'' ''volume'')]),
                    (''players'', QJsonArray players)])\<rparr>)
    \<and> length players = length (getLoadedTracks E w)
    \<and> (\<forall>item. getControlValue E w ''[Master]'' item =
           (case getControl E w (ConfigKey ''[Master]'' item) of
              None \<Rightarrow> QJsonNull
            | Some c \<Rightarrow> QJsonDouble (co_get E w c)))"
proof -
  let ?players = "map (\<lambda>(grp, pTrack).
                 QJsonObject (QMap_insert ''group'' (QJsonString grp) (getPlayerStatus E w grp)))
            (getLoadedTracks E w)"
  have "handleRequest E w socket request =
        (w, sendHttpResponse socket
              \<lparr>statusCode = 200, statusText = ''OK'', headers = [],
                 body = toJson E (QJsonObject
                   [(''master'', QJsonObject
                       [(''balance'', getControlValue E w ''[Master]'' ''balance''),
                        (''headMix'', getControlValue E w ''[Master]'' ''headMix''),
                        (''headVolume'', getControlValue E w ''[Master]'' ''headVolume''),
                        (''volume'', getControlValue E w ''[Master]'' ''volume'')]),
                    (''players'', QJsonArray ?players)])\<rparr>)"
    using assms
    by (simp only: route_status handleGetStatus_def getAllPlayersStatus_eq Let_def)
       (simp add: HttpResponse_default_def)
  moreover have "length ?players = length (getLoadedTracks E w)"
    by simp
  moreover have "\<forall>item. getControlValue E w ''[Master]'' item =
           (case getControl E w (ConfigKey ''[Master]'' item) of
              None \<Rightarrow> QJsonNull
            | Some c \<Rightarrow> QJsonDouble (co_get E w c))"
    by (simp add: getControlValue_def split: option.split)
  ultimately show ?thesis
    by blast
qed

theorem status_endpoint_witness:
  "handleRequest_pathParts ''/api/status'' = [''api'', ''status'']
   \<and> length (getLoadedTracks demoEnv demoWorld) = 1
   \<and> (\<exists>players.
      handleRequest demoEnv demoWorld demoSocket (demoRequest ''GET'' ''/api/status'' []) =
        (demoWorld, sendHttpResponse demoSocket
              \<lparr>statusCode = 200, statusText = ''OK'', headers = [],
                 body = toJson demoEnv (QJsonObject
                   [(''master'', QJsonObject
                       [(''balance'', QJsonNull),
                        (''headMix'', QJsonNull),
                        (''headVolume'', QJsonNull),
                        (''volume'', QJsonDouble 70)]),
                    (''players'', QJsonArray players)])\<rparr>)
      \<and> length players = 1)"
proof -
  let ?r = "demoRequest ''GET'' ''/api/status'' []"
  have m: "req_method ?r = ''GET''"
    by (simp add: demoRequest_def)
  have p: "handleRequest_pathParts (req_path ?r) = ''api'' # ''status'' # []"
    by (simp add: path_eval demoRequest_def)
  have v: "getControlValue demoEnv demoWorld ''[Master]'' ''volume'' = QJsonDouble 70"
    "getControlValue demoEnv demoWorld ''[Master]'' ''balance'' = QJsonNull"
    "getControlValue demoEnv demoWorld ''[Master]'' ''headMix'' = QJsonNull"
    "getControlValue demoEnv demoWorld ''[Master]'' ''headVolume'' = QJsonNull"
    by (simp_all add: getControlValue_def demoEnv_def demoWorld_def)
  have n: "length (getLoadedTracks demoEnv demoWorld) = 1"
    by (simp add: demoEnv_def)
  from status_endpoint [OF m p, of demoEnv demoWorld demoSocket]
  obtain players where
    "handleRequest demoEnv demoWorld demoSocket ?r =
        (demoWorld, sendHttpResponse demoSocket
              \<lparr>statusCode = 200, statusText = ''OK'', headers = [],
                 body = toJson demoEnv (QJsonObject
                   [(''master'', QJsonObject
                       [(''balance'', getControlValue demoEnv demoWorld ''[Master]'' ''balance''),
                        (''headMix'', getControlValue demoEnv demoWorld ''[Master]'' ''headMix''),
                        (''headVolume'', getControlValue demoEnv demoWorld ''[Master]'' ''headVolume''),
                        (''volume'', getControlValue demoEnv demoWorld ''[Master]'' ''volume'')]),
                    (''players'', QJsonArray players)])\<rparr>)"
    and "length players = length (getLoadedTracks demoEnv demoWorld)"
    by blast
  with v n have "handleRequest demoEnv demoWorld demoSocket ?r =
        (demoWorld, sendHttpResponse demoSocket
              \<lparr>statusCode = 200, statusText = ''OK'', headers = [],
                 body = toJson demoEnv (QJsonObject
                   [(''master'', QJsonObject
                       [(''balance'', QJsonNull),
                        (''headMix'', QJsonNull),
                        (''headVolume'', QJsonNull),
                        (''volume'', QJsonDouble 70)]),
                    (''players'', QJsonArray players)])\<rparr>) \<and> length players = 1"
    by simp
  then have "\<exists>players. handleRequest demoEnv demoWorld demoSocket ?r =
        (demoWorld, sendHttpResponse demoSocket
              \<lparr>statusCode = 200, statusText = ''OK'', headers = [],
                 body = toJson demoEnv (QJsonObject
                   [(''master'', QJsonObject
                       [(''balance'', QJsonNull),
                        (''headMix'', QJsonNull),
                        (''headVolume'', QJsonNull),
                        (''volume'', QJsonDouble 70)]),
                    (''players'', QJsonArray players)])\<rparr>) \<and> length players = 1"
    by blast
  with p n show ?thesis
    by (simp add: demoRequest_def)
qed

subsection \<open>C9: group names with and without brackets\<close>

text \<open>
  Claim C9. On the player endpoint and on both methods of the control endpoint the
  handler receives the percent-decoded group segment normalized as the specification
  says, and the item segment percent-decoded and otherwise unchanged. Normalizing wraps a
  group that does not start with a bracket, so that the bare and the wrapped name are
  the same group to the handlers, and leaves every other group as it is.
\<close>

theorem group_normalization:
  "(req_method request = ''GET'' \<and>
    handleRequest_pathParts (req_path request) = ''api'' # ''player'' # g # rest \<longrightarrow>
      handleRequest E w socket request =
        (w, handleGetPlayer E w socket (normalizeGroup (fromPercentEncoding E g))))
 \<and> (req_method request = ''GET'' \<and>
    handleRequest_pathParts (req_path request) = ''api'' # ''control'' # g # i # rest \<longrightarrow>
      handleRequest E w socket request =
        (w, handleGetControl E w socket (normalizeGroup (fromPercentEncoding E g))
              (fromPercentEncoding E i)))
 \<and> (req_method request = ''POST'' \<and>
    handleRequest_pathParts (req_path request) = ''api'' # ''control'' # g # i # rest \<longrightarrow>
      handleRequest E w socket request =
        handleSetControl E w socket (normalizeGroup (fromPercentEncoding E g))
          (fromPercentEncoding E i) (req_body request))
 \<and> (\<not> startsWith d CHR ''['' \<longrightarrow>
      normalizeGroup d = ''['' @ d @ '']'' \<and> normalizeGroup (''['' @ d @ '']'') = normalizeGroup d)
 \<and> (startsWith d CHR ''['' \<longrightarrow> normalizeGroup d = d)"
  by (simp add: route_player route_control normalizeGroup_def startsWith_def)

theorem group_normalization_witness:
  "normalizeGroup ''Channel1'' = ''[Channel1]''
   \<and> normalizeGroup ''[Channel1]'' = ''[Channel1]''
   \<and> handleRequest demoEnv demoWorld demoSocket (demoRequest ''GET'' ''/api/control/Channel1/volume'' [])
     = handleRequest demoEnv demoWorld demoSocket (demoRequest ''GET'' ''/api/control/[Channel1]/volume'' [])
   \<and> handleRequest demoEnv demoWorld demoSocket (demoRequest ''POST'' ''/api/control/Channel1/volume'' body_number)
     = handleRequest demoEnv demoWorld demoSocket (demoRequest ''POST'' ''/api/control/[Channel1]/volume'' body_number)
   \<and> handleRequest demoEnv demoWorld demoSocket (demoRequest ''GET'' ''/api/player/Channel1'' [])
     = handleRequest demoEnv demoWorld demoSocket (demoRequest ''GET'' ''/api/player/[Channel1]'' [])"
proof -
  have p: "handleRequest_pathParts (req_path (demoRequest m ''/api/control/Channel1/volume'' b))
             = ''api'' # ''control'' # ''Channel1'' # ''volume'' # []"
    "handleRequest_pathParts (req_path (demoRequest m ''/api/control/[Channel1]/volume'' b))
             = ''api'' # ''control'' # ''[Channel1]'' # ''volume'' # []"
    "handleRequest_pathParts (req_path (demoRequest m ''/api/player/Channel1'' b))
             = ''api'' # ''player'' # ''Channel1'' # []"
    "handleRequest_pathParts (req_path (demoRequest m ''/api/player/[Channel1]'' b))
             = ''api'' # ''player'' # ''[Channel1]'' # []" for m b
    by (simp_all add: path_eval demoRequest_def)
  have m: "req_method (demoRequest m q b) = m" for m q b
    by (simp add: demoRequest_def)
  have s: "\<not> startsWith ''Channel1'' CHR ''[''" "startsWith ''[Channel1]'' CHR ''[''"
    by (simp_all add: startsWith_def)
  have d: "fromPercentEncoding demoEnv x = x" for x
    by (simp add: demoEnv_def)
  note n = group_normalization [where E = demoEnv and w = demoWorld and socket = demoSocket
      and rest = "[]"]
  let ?get = "\<lambda>q. demoRequest ''GET'' q []"
  let ?post = "\<lambda>q. demoRequest ''POST'' q body_number"
  from n [where request = "?get ''/api/control/Channel1/volume''" and d = "''Channel1''"] s(1)
  have e1: "normalizeGroup ''Channel1'' = ''['' @ ''Channel1'' @ '']''"
    by blast
  from n [where request = "?get ''/api/control/Channel1/volume''" and d = "''[Channel1]''"] s(2)
  have e2: "normalizeGroup ''[Channel1]'' = ''[Channel1]''"
    by blast
  from n [where request = "?get ''/api/control/Channel1/volume''" and g = "''Channel1''"
      and i = "''volume''"] m p(1)
  have g1: "handleRequest demoEnv demoWorld demoSocket (?get ''/api/control/Channel1/volume'') =
        (demoWorld, handleGetControl demoEnv demoWorld demoSocket
           (normalizeGroup (fromPercentEncoding demoEnv ''Channel1''))
           (fromPercentEncoding demoEnv ''volume''))"
    by blast
  from n [where request = "?get ''/api/control/[Channel1]/volume''" and g = "''[Channel1]''"
      and i = "''volume''"] m p(2)
  have g2: "handleRequest demoEnv demoWorld demoSocket (?get ''/api/control/[Channel1]/volume'') =
        (demoWorld, handleGetControl demoEnv demoWorld demoSocket
           (normalizeGroup (fromPercentEncoding demoEnv ''[Channel1]''))
           (fromPercentEncoding demoEnv ''volume''))"
    by blast
  from n [where request = "?post ''/api/control/Channel1/volume''" and g = "''Channel1''"
      and i = "''volume''"] m p(1)
  have s1: "handleRequest demoEnv demoWorld demoSocket (?post ''/api/control/Channel1/volume'') =
        handleSetControl demoEnv demoWorld demoSocket
           (normalizeGroup (fromPercentEncoding demoEnv ''Channel1''))
           (fromPercentEncoding demoEnv ''volume'')
           (req_body (?post ''/api/control/Channel1/volume''))"
    by blast
  from n [where request = "?post ''/api/control/[Channel1]/volume''" and g = "''[Channel1]''"
      and i = "''volume''"] m p(2)
  have s2: "handleRequest demoEnv demoWorld demoSocket (?post ''/api/control/[Channel1]/volume'') =
        handleSetControl demoEnv demoWorld demoSocket
           (normalizeGroup (fromPercentEncoding demoEnv ''[Channel1]''))
           (fromPercentEncoding demoEnv ''volume'')
           (req_body (?post ''/api/control/[Channel1]/volume''))"
    by blast
  from n [where request = "?get ''/api/player/Channel1''" and g = "''Channel1''"] m p(3)
  have p1: "handleRequest demoEnv demoWorld demoSocket (?get ''/api/player/Channel1'') =
        (demoWorld, handleGetPlayer demoEnv demoWorld demoSocket
           (normalizeGroup (fromPercentEncoding demoEnv ''Channel1'')))"
    by blast
  from n [where request = "?get ''/api/player/[Channel1]''" and g = "''[Channel1]''"] m p(4)
  have p2: "handleRequest demoEnv demoWorld demoSocket (?get ''/api/player/[Channel1]'') =
        (demoWorld, handleGetPlayer demoEnv demoWorld demoSocket
           (normalizeGroup (fromPercentEncoding demoEnv ''[Channel1]'')))"
    by blast
  have b: "req_body (demoRequest mm q bb) = bb" for mm q bb
    by (simp add: demoRequest_def)
  show ?thesis
    by (simp only: g1 g2 s1 s2 p1 p2 d e1 e2 b) simp
qed

subsection \<open>C10: a value that is not a number\<close>

text \<open>
  Claim C10. When the member \<^verbatim>\<open>value\<close> of the body is not a JSON number, the answer is
  not 400: \<^verbatim>\<open>toDouble\<close> makes it 0, the server writes 0 to the control, and answers 200
  with \<^verbatim>\<open>success\<close> true and the value read back.
\<close>

theorem set_control_non_numeric_value:
  assumes "req_method request = ''POST''"
    and "handleRequest_pathParts (req_path request) = ''api'' # ''control'' # g # i # rest"
    and "fromJson E (req_body request) = QJsonObject obj"
    and "map_of obj ''value'' = Some v"
    and "\<forall>d. v \<noteq> QJsonDouble d"
    and "getControl E w
           (ConfigKey (normalizeGroup (fromPercentEncoding E g)) (fromPercentEncoding E i)) = Some c"
  shows "toDouble v = 0
       \<and> handleRequest E w socket request =
          (co_set E c 0 w,
           sendHttpResponse socket
             \<lparr>statusCode = 200, statusText = ''OK'', headers = [],
                body = toJson E (QJsonObject
                  [(''group'', QJsonString (normalizeGroup (fromPercentEncoding E g))),
                   (''item'', QJsonString (fromPercentEncoding E i)),
                   (''success'', QJsonBool True),
                   (''value'', QJsonDouble (co_get E (co_set E c 0 w) c))])\<rparr>)"
proof -
  from assms(5) have z: "toDouble v = 0"
    by (cases v) simp_all
  with assms show ?thesis
    by (simp add: route_control handleSetControl_write)
qed

theorem set_control_non_numeric_value_witness:
  "fromJson demoEnv body_string = QJsonObject [(''value'', QJsonString ''loud'')]
   \<and> handleRequest demoEnv demoWorld demoSocket
         (demoRequest ''POST'' ''/api/control/Channel1/volume'' body_string)
       = ([(ConfigKey ''[Channel1]'' ''volume'', 0), (ConfigKey ''[Master]'' ''volume'', 70)],
          sendHttpResponse demoSocket
            \<lparr>statusCode = 200, statusText = ''OK'', headers = [],
               body = toJson demoEnv (QJsonObject
                 [(''group'', QJsonString ''[Channel1]''), (''item'', QJsonString ''volume''),
                  (''success'', QJsonBool True), (''value'', QJsonDouble 0)])\<rparr>)"
proof -
  let ?r = "demoRequest ''POST'' ''/api/control/Channel1/volume'' body_string"
  have m: "req_method ?r = ''POST''"
    by (simp add: demoRequest_def)
  have p: "handleRequest_pathParts (req_path ?r) = ''api'' # ''control'' # ''Channel1'' # ''volume'' # []"
    by (simp add: path_eval demoRequest_def)
  have j: "fromJson demoEnv (req_body ?r) = QJsonObject [(''value'', QJsonString ''loud'')]"
    by (simp add: demoRequest_def demoEnv_def demo_fromJson_def body_number_def body_string_def dquote_def)
  have v: "map_of [(''value'', (QJsonString ''loud'' :: int QJsonValue))] ''value'' = Some (QJsonString ''loud'')"
    by simp
  have n: "\<forall>d. (QJsonString ''loud'' :: int QJsonValue) \<noteq> QJsonDouble d"
    by simp
  have c: "getControl demoEnv demoWorld
             (ConfigKey (normalizeGroup (fromPercentEncoding demoEnv ''Channel1''))
                (fromPercentEncoding demoEnv ''volume''))
           = Some (ConfigKey ''[Channel1]'' ''volume'')"
    by (simp add: demo_eval)
  show ?thesis
    using j set_control_non_numeric_value [OF m p j v n c, of demoSocket]
    by (simp add: demo_eval)
qed

end
